theory Spec2Isabelle
  imports Complex_Main "HOL-Library.Word"
begin

section \<open>JavaScript values, errors and strings\<close>

text \<open>
  \<open>src/index.js\<close> holds two variants of the worker, one after the other. The first
  (lines 1 to 283) runs the audit engine in process and uploads the HTML report; the second
  (lines 284 to 600) runs the engine as a subprocess, adds a link column to the sheet row and
  has the upload and the clean-up commented out. Definitions that differ between the two carry
  the suffix \<open>1\<close> or \<open>2\<close>; text that is the same in both is modelled once.

  An exception is a value of type \<open>error\<close>; only its \<open>message\<close> is ever read by the
  program (in the log lines).
\<close>

datatype error = JsError (err_name: string) (message: string)

text \<open>
  A value read from the audit report. Numbers are rationals (a score is a JSON number);
  an object is an association list whose first binding of a key is the property.
\<close>

datatype jsval =
    JUndefined
  | JNull
  | JBool bool
  | JNum rat
  | JStr string
  | JArr "jsval list"
  | JObj "(string \<times> jsval) list"

definition nullish :: "jsval \<Rightarrow> bool" where
  "nullish v = (v = JUndefined \<or> v = JNull)"

text \<open>\<open>!v\<close> is true for exactly the falsy values.\<close>

definition falsy :: "jsval \<Rightarrow> bool" where
  "falsy v =
     (v = JUndefined \<or> v = JNull \<or> v = JBool False \<or> v = JNum 0 \<or> v = JStr [])"

text \<open>
  \<open>v.k\<close> for the property names this program reads (\<open>lhr\<close>, \<open>categories\<close>, \<open>score\<close>,
  \<open>finalUrl\<close>, the category names, ...): none of them is a property of a primitive or of an
  array, so the read gives \<open>undefined\<close> there. Reading a property of \<open>undefined\<close> or
  \<open>null\<close> throws a TypeError (the message is V8's).
\<close>

definition get_prop :: "jsval \<Rightarrow> string \<Rightarrow> error + jsval" where
  "get_prop v k =
     (case v of
        JUndefined \<Rightarrow>
          Inl (JsError ''TypeError''
                 (''Cannot read properties of undefined (reading '' @ [CHR 0x27] @ k @ [CHR 0x27] @ '')''))
      | JNull \<Rightarrow>
          Inl (JsError ''TypeError''
                 (''Cannot read properties of null (reading '' @ [CHR 0x27] @ k @ [CHR 0x27] @ '')''))
      | JObj kvs \<Rightarrow> Inr (case map_of kvs k of None \<Rightarrow> JUndefined | Some x \<Rightarrow> x)
      | _ \<Rightarrow> Inr JUndefined)"

text \<open>\<open>v?.k\<close>: \<open>undefined\<close> when \<open>v\<close> is nullish, the property otherwise.\<close>

definition opt_prop :: "jsval \<Rightarrow> string \<Rightarrow> jsval" where
  "opt_prop v k =
     (case v of
        JObj kvs \<Rightarrow> (case map_of kvs k of None \<Rightarrow> JUndefined | Some x \<Rightarrow> x)
      | _ \<Rightarrow> JUndefined)"

text \<open>\<open>v ?? d\<close>: \<open>d\<close> when \<open>v\<close> is \<open>undefined\<close> or \<open>null\<close>, and \<open>v\<close> otherwise.\<close>

definition coalesce :: "jsval \<Rightarrow> jsval \<Rightarrow> jsval" where
  "coalesce v d = (if nullish v then d else v)"

text \<open>A chain of property reads \<open>v.k1.k2\<close>, which throws at the first nullish base.\<close>

fun path_get :: "jsval \<Rightarrow> string list \<Rightarrow> error + jsval" where
  "path_get v [] = Inr v"
| "path_get v (k # ks) =
     (case get_prop v k of Inl e \<Rightarrow> Inl e | Inr x \<Rightarrow> path_get x ks)"

text \<open>
  The elements of an array or object literal are evaluated from left to right; the first one
  that throws ends the evaluation.
\<close>

fun collect :: "(error + 'a) list \<Rightarrow> error + 'a list" where
  "collect [] = Inr []"
| "collect (r # rs) =
     (case r of
        Inl e \<Rightarrow> Inl e
      | Inr x \<Rightarrow> (case collect rs of Inl e \<Rightarrow> Inl e | Inr xs \<Rightarrow> Inr (x # xs)))"

subsection \<open>Numbers as strings\<close>

definition digits36 :: string where
  "digits36 = ''0123456789abcdefghijklmnopqrstuvwxyz''"

definition digit_char :: "nat \<Rightarrow> char" where
  "digit_char d = digits36 ! d"

text \<open>
  The digits of \<open>n\<close> in radix \<open>b\<close>, most significant first, without leading zeros
  (\<open>''0''\<close> for zero). The program uses the radices 10, 16 and 36.
\<close>

function digits_radix :: "nat \<Rightarrow> nat \<Rightarrow> string" where
  "digits_radix b n =
     (if 2 \<le> b \<and> b \<le> n then digits_radix b (n div b) @ [digit_char (n mod b)]
      else [digit_char n])"
  by pat_completeness auto
termination
  by (relation "measure (\<lambda>(b, n). n)") auto

declare digits_radix.simps [simp del]

text \<open>\<open>BigInt.prototype.toString(radix)\<close>: a RangeError unless the radix is 2 to 36.\<close>

definition BigInt_toString :: "nat \<Rightarrow> nat \<Rightarrow> error + string" where
  "BigInt_toString n radix =
     (if radix < 2 \<or> 36 < radix
      then Inl (JsError ''RangeError'' ''toString() radix must be between 2 and 36'')
      else Inr (digits_radix radix n))"

text \<open>\<open>s.padStart(n, c)\<close> for a one-character pad string, and \<open>s.slice(0, n)\<close>.\<close>

definition padStart :: "nat \<Rightarrow> char \<Rightarrow> string \<Rightarrow> string" where
  "padStart n c s = replicate (n - length s) c @ s"

definition slice0 :: "nat \<Rightarrow> string \<Rightarrow> string" where
  "slice0 n s = take n s"

text \<open>A number in a template literal: decimal, with a minus sign when negative.\<close>

definition dec :: "int \<Rightarrow> string" where
  "dec n = (if n < 0 then CHR ''-'' # digits_radix 10 (nat (- n)) else digits_radix 10 (nat n))"

subsection \<open>Hexadecimal digests and \<open>BigInt\<close>\<close>

text \<open>\<open>digest("hex")\<close> of a 32-byte digest: 64 lower-case hexadecimal digits.\<close>

definition digest_hex :: "256 word \<Rightarrow> string" where
  "digest_hex d = padStart 64 (CHR ''0'') (digits_radix 16 (unat d))"

definition hex_val :: "char \<Rightarrow> nat option" where
  "hex_val c =
     (let k = (of_char c :: nat) in
      if 48 \<le> k \<and> k \<le> 57 then Some (k - 48)
      else if 97 \<le> k \<and> k \<le> 102 then Some (k - 87)
      else if 65 \<le> k \<and> k \<le> 70 then Some (k - 55)
      else None)"

fun parse_hex :: "nat \<Rightarrow> string \<Rightarrow> nat option" where
  "parse_hex acc [] = Some acc"
| "parse_hex acc (c # cs) =
     (case hex_val c of None \<Rightarrow> None | Some d \<Rightarrow> parse_hex (16 * acc + d) cs)"

text \<open>
  \<open>BigInt(s)\<close> for a hexadecimal literal \<open>0x...\<close>, the only form the program passes:
  a SyntaxError when a character after the prefix is no hexadecimal digit or none follows.
  (The decimal, octal and binary forms that \<open>BigInt\<close> also reads are not modelled and
  give the SyntaxError here.)
\<close>

definition BigInt_hex :: "string \<Rightarrow> error + nat" where
  "BigInt_hex s =
     (if take 2 s = ''0x'' \<and> drop 2 s \<noteq> [] then
        (case parse_hex 0 (drop 2 s) of
           None \<Rightarrow> Inl (JsError ''SyntaxError'' (''Cannot convert '' @ s @ '' to a BigInt''))
         | Some n \<Rightarrow> Inr n)
      else Inl (JsError ''SyntaxError'' (''Cannot convert '' @ s @ '' to a BigInt'')))"

section \<open>IdentityDeriver: \<open>hashStringTo12Digits\<close>\<close>

text \<open>
  Lines 155 to 164 (and 447 to 456). The SHA-256 function of Node's \<open>crypto\<close> module is
  a parameter: \<open>sha256 input\<close> is the 32-byte digest of the input string.
\<close>

definition hashStringTo12Digits :: "(string \<Rightarrow> 256 word) \<Rightarrow> string \<Rightarrow> error + string" where
  "hashStringTo12Digits sha256 input =
     (let hash = digest_hex (sha256 input) in
      case BigInt_hex (''0x'' @ hash) of
        Inl e \<Rightarrow> Inl e
      | Inr n \<Rightarrow>
          (case BigInt_toString n 36 of
             Inl e \<Rightarrow> Inl e
           | Inr base36Hash \<Rightarrow> Inr (padStart 12 (CHR ''0'') (slice0 12 base36Hash))))"

subsection \<open>Dates\<close>

text \<open>
  A time value is the number of milliseconds since 1970-01-01T00:00:00Z, as \<open>new Date()\<close>
  reads it from the clock and \<open>getTime()\<close> returns it.
\<close>

type_synonym time = int

text \<open>
  The civil date (year, month, day) of a day number counted from 1970-01-01 in the proleptic
  Gregorian calendar, which is the calendar of \<open>Date\<close>. The computation goes by the
  400-year era of the day, the day of the era, the year of the era, the day of the year
  counted from 1 March, and the month counted from March.
\<close>

definition civil_of_mp :: "int \<Rightarrow> int \<Rightarrow> int \<Rightarrow> int \<times> int \<times> int" where
  "civil_of_mp y doy mp =
     (if mp < 10 then (y, mp + 3, doy - (153 * mp + 2) div 5 + 1)
      else (y + 1, mp - 9, doy - (153 * mp + 2) div 5 + 1))"

definition civil_of_doy :: "int \<Rightarrow> int \<Rightarrow> int \<times> int \<times> int" where
  "civil_of_doy y doy = civil_of_mp y doy ((5 * doy + 2) div 153)"

definition civil_of_yoe :: "int \<Rightarrow> int \<Rightarrow> int \<Rightarrow> int \<times> int \<times> int" where
  "civil_of_yoe era doe yoe =
     civil_of_doy (yoe + era * 400) (doe - (365 * yoe + yoe div 4 - yoe div 100))"

definition civil_of_doe :: "int \<Rightarrow> int \<Rightarrow> int \<times> int \<times> int" where
  "civil_of_doe era doe =
     civil_of_yoe era doe ((doe - doe div 1460 + doe div 36524 - doe div 146096) div 365)"

definition civil_from_days :: "int \<Rightarrow> int \<times> int \<times> int" where
  "civil_from_days z = civil_of_doe ((z + 719468) div 146097) ((z + 719468) mod 146097)"

text \<open>A non-negative number with leading zeros up to \<open>n\<close> digits.\<close>

definition zero_pad :: "nat \<Rightarrow> int \<Rightarrow> string" where
  "zero_pad n k = padStart n (CHR ''0'') (digits_radix 10 (nat k))"

text \<open>
  \<open>Date.prototype.toISOString()\<close> of a valid date: UTC, four-digit years from 0 to 9999
  and signed six-digit years outside.
\<close>

definition iso_year :: "int \<Rightarrow> string" where
  "iso_year y =
     (if 0 \<le> y \<and> y \<le> 9999 then zero_pad 4 y
      else (if y < 0 then CHR ''-'' else CHR ''+'') # zero_pad 6 (abs y))"

definition iso_time_of_day :: "int \<Rightarrow> string" where
  "iso_time_of_day ms =
     zero_pad 2 (ms div 3600000) @ '':'' @ zero_pad 2 (ms div 60000 mod 60)
     @ '':'' @ zero_pad 2 (ms div 1000 mod 60) @ ''.'' @ zero_pad 3 (ms mod 1000)"

fun iso_date :: "int \<times> int \<times> int \<Rightarrow> string" where
  "iso_date (y, m, d) = iso_year y @ ''-'' @ zero_pad 2 m @ ''-'' @ zero_pad 2 d"

definition toISOString :: "time \<Rightarrow> string" where
  "toISOString t =
     iso_date (civil_from_days (t div 86400000)) @ ''T'' @ iso_time_of_day (t mod 86400000)
     @ ''Z''"

text \<open>
  \<open>format(date, "yyyy-MM-dd")\<close> of date-fns: the date in the local time zone, which is
  \<open>offset\<close> minutes ahead of UTC at that instant; a year before 1 is printed as its era
  year.
\<close>

fun format_civil :: "int \<times> int \<times> int \<Rightarrow> string" where
  "format_civil (signedYear, m, d) =
     zero_pad 4 (if 0 < signedYear then signedYear else 1 - signedYear)
     @ ''-'' @ zero_pad 2 m @ ''-'' @ zero_pad 2 d"

definition format_yyyy_MM_dd :: "int \<Rightarrow> time \<Rightarrow> string" where
  "format_yyyy_MM_dd offset t = format_civil (civil_from_days ((t + offset * 60000) div 86400000))"

subsection \<open>Paths\<close>

text \<open>
  \<open>path.join\<close> and \<open>path.normalize\<close> of Node on POSIX. A path is cut at its slashes; an
  empty component and a component \<open>.\<close> are dropped; a component \<open>..\<close> removes the component
  before it, unless there is none or it is \<open>..\<close> itself, in which case a relative path keeps
  the \<open>..\<close> and an absolute path drops it. The components kept so far are held in reverse.
\<close>

fun split_slash :: "string \<Rightarrow> string list" where
  "split_slash [] = [[]]"
| "split_slash (c # cs) =
     (if c = CHR ''/'' then [] # split_slash cs
      else (case split_slash cs of
              [] \<Rightarrow> [[c]]
            | piece # pieces \<Rightarrow> (c # piece) # pieces))"

fun normalize_segments :: "bool \<Rightarrow> string list \<Rightarrow> string list \<Rightarrow> string list" where
  "normalize_segments allowAboveRoot kept [] = rev kept"
| "normalize_segments allowAboveRoot kept (s # ss) =
     (if s = [] \<or> s = ''.'' then normalize_segments allowAboveRoot kept ss
      else if s = ''..'' then
        (case kept of
           [] \<Rightarrow>
             normalize_segments allowAboveRoot (if allowAboveRoot then [''..''] else []) ss
         | segment # rest \<Rightarrow>
             (if segment = ''..''
              then normalize_segments allowAboveRoot
                     (if allowAboveRoot then ''..'' # kept else kept) ss
              else normalize_segments allowAboveRoot rest ss))
      else normalize_segments allowAboveRoot (s # kept) ss)"

fun join_slash :: "string list \<Rightarrow> string" where
  "join_slash [] = []"
| "join_slash [s] = s"
| "join_slash (s # t # ss) = s @ ''/'' @ join_slash (t # ss)"

definition posix_normalize :: "string \<Rightarrow> string" where
  "posix_normalize path =
     (if path = [] then ''.''
      else (let isAbsolute = (hd path = CHR ''/'');
                trailingSeparator = (last path = CHR ''/'');
                res = join_slash (normalize_segments (\<not> isAbsolute) [] (split_slash path))
            in if res = [] then
                 (if isAbsolute then ''/'' else if trailingSeparator then ''./'' else ''.'')
               else (if isAbsolute then ''/'' else []) @ res
                    @ (if trailingSeparator then ''/'' else [])))"

definition path_join :: "string \<Rightarrow> string \<Rightarrow> string" where
  "path_join a b =
     (if a = [] \<and> b = [] then ''.''
      else posix_normalize (if a = [] then b else if b = [] then a else a @ ''/'' @ b))"

section \<open>The platform, the world and the outcomes of external calls\<close>

text \<open>
  What the process is given and cannot change: the library functions the model does not
  define (SHA-256, \<open>JSON.parse\<close>, the local time zone) and the environment variables that
  the worker reads.
\<close>

record platform =
  p_sha256 :: "string \<Rightarrow> 256 word"
  p_JSON_parse :: "string \<Rightarrow> error + jsval"
  p_utc_offset :: "time \<Rightarrow> int"
  TARGET_URL :: "string option"
  S3_BUCKET_NAME :: "string option"
  HOST :: "string option"

datatype level = LInfo | LError

text \<open>The calls to external collaborators, in the order the worker makes them.\<close>

datatype call =
    Mkdir string
  | LaunchChrome
  | Lighthouse string string
  | KillChrome
  | Exec string
  | WriteFile string
  | ReadFile string
  | Unlink string
  | GetAuthClient
  | SheetsAppend string "jsval list"
  | S3Send "string option" string

text \<open>
  The state outside the process: the files of the working directory (path to content), the
  rows of the sheet, the objects of the bucket (bucket, key, body), the log, and the trace of
  external calls.
\<close>

record world =
  files :: "string \<rightharpoonup> string"
  sheet :: "jsval list list"
  objects :: "(string option \<times> string \<times> string) list"
  logs :: "(level \<times> string) list"
  calls :: "call list"

text \<open>
  What the surroundings do during one task: the clock readings and, for each external call,
  whether it fails (\<open>Some e\<close>) or what it returns. \<open>exec_html\<close> and \<open>exec_json\<close> are the
  report files that the engine subprocess writes, \<open>None\<close> when it writes none.
  \<open>write_chunks_out\<close> is what becomes of writing an array with a chunk that is not a string:
  the failure, if any, and the content that the file is left with.
\<close>

record task_env =
  t_start :: time
  t_archive :: time
  t_end :: time
  mkdir_out :: "error option"
  launch_out :: "error option"
  engine_out :: "error + jsval"
  kill_out :: "error option"
  exec_error :: "error option"
  exec_stderr :: string
  exec_html :: "string option"
  exec_json :: "string option"
  read_json_out :: "error option"
  write_out :: "error option"
  write_chunks_out :: "jsval \<Rightarrow> error option \<times> string"
  auth_out :: "error option"
  append_out :: "error option"
  read_out :: "error option"
  send_out :: "error option"
  unlink_out :: "error option"

text \<open>
  How a call of an asynchronous function ends: its promise is fulfilled, is rejected, or is
  never settled, so that the caller's \<open>await\<close> never resumes.
\<close>

datatype 'a completion = Returns 'a | Throws error | Pending

definition logger_info :: "string \<Rightarrow> world \<Rightarrow> world" where
  "logger_info msg w = w\<lparr>logs := logs w @ [(LInfo, msg)]\<rparr>"

definition logger_error :: "string \<Rightarrow> world \<Rightarrow> world" where
  "logger_error msg w = w\<lparr>logs := logs w @ [(LError, msg)]\<rparr>"

definition called :: "call \<Rightarrow> world \<Rightarrow> world" where
  "called c w = w\<lparr>calls := calls w @ [c]\<rparr>"

subsection \<open>The file system\<close>

text \<open>
  A file is known by its normalised path relative to the working directory, so that
  \<open>./outputs/x\<close> and \<open>outputs/x\<close> are one file.
\<close>

definition norm_path :: "string \<Rightarrow> string" where
  "norm_path p = posix_normalize p"

definition enoent :: "string \<Rightarrow> string \<Rightarrow> error" where
  "enoent syscall p =
     JsError ''Error''
       (''ENOENT: no such file or directory, '' @ syscall @ '' '' @ [CHR 0x27] @ p @ [CHR 0x27])"

text \<open>
  \<open>fs.readFile\<close>, \<open>fs.writeFile\<close> and \<open>fs.unlink\<close> of \<open>fs/promises\<close>. Reading and
  unlinking fail when the file does not exist, and every call fails when the surroundings make
  it fail. \<open>writeFile\<close> takes a string, or an iterable of chunks such as an array: the chunks
  that are strings are written one after the other, and a chunk that is not a string is handed
  to \<open>Buffer.from\<close>, whose outcome the model takes from the surroundings. Every other value of
  this model (\<open>undefined\<close>, \<open>null\<close>, a boolean, a number, a plain object) is refused by the
  argument check with a TypeError before the file is opened.
\<close>

fun string_chunks :: "jsval list \<Rightarrow> string list option" where
  "string_chunks [] = Some []"
| "string_chunks (JStr s # chunks) =
     (case string_chunks chunks of None \<Rightarrow> None | Some ss \<Rightarrow> Some (s # ss))"
| "string_chunks (chunk # chunks) = None"

definition fs_readFile :: "error option \<Rightarrow> string \<Rightarrow> world \<Rightarrow> (error + string) \<times> world" where
  "fs_readFile out p w =
     (let w1 = called (ReadFile p) w in
      case files w (norm_path p) of
        None \<Rightarrow> (Inl (enoent ''open'' p), w1)
      | Some content \<Rightarrow>
          (case out of Some e \<Rightarrow> (Inl e, w1) | None \<Rightarrow> (Inr content, w1)))"

definition fs_writeFile ::
  "error option \<Rightarrow> (jsval \<Rightarrow> error option \<times> string) \<Rightarrow> string \<Rightarrow> jsval \<Rightarrow> world
     \<Rightarrow> (error + unit) \<times> world" where
  "fs_writeFile out chunks_out p data w =
     (let w1 = called (WriteFile p) w in
      case data of
        JStr content \<Rightarrow>
          (case out of
             Some e \<Rightarrow> (Inl e, w1)
           | None \<Rightarrow> (Inr (), w1\<lparr>files := (files w1)(norm_path p \<mapsto> content)\<rparr>))
      | JArr chunks \<Rightarrow>
          (case out of
             Some e \<Rightarrow> (Inl e, w1)
           | None \<Rightarrow>
               (case string_chunks chunks of
                  Some ss \<Rightarrow>
                    (Inr (), w1\<lparr>files := (files w1)(norm_path p \<mapsto> concat ss)\<rparr>)
                | None \<Rightarrow>
                    (case fst (chunks_out data) of
                       Some e \<Rightarrow>
                         (Inl e,
                          w1\<lparr>files := (files w1)(norm_path p \<mapsto> snd (chunks_out data))\<rparr>)
                     | None \<Rightarrow>
                         (Inr (),
                          w1\<lparr>files := (files w1)(norm_path p \<mapsto> snd (chunks_out data))\<rparr>))))
      | _ \<Rightarrow>
          (Inl (JsError ''TypeError''
                  (''The '' @ [CHR 0x22] @ ''data'' @ [CHR 0x22]
                    @ '' argument must be of type string or an instance of Buffer, TypedArray, or DataView.'')),
           w1))"

definition fs_unlink :: "error option \<Rightarrow> string \<Rightarrow> world \<Rightarrow> (error + unit) \<times> world" where
  "fs_unlink out p w =
     (let w1 = called (Unlink p) w in
      case files w (norm_path p) of
        None \<Rightarrow> (Inl (enoent ''unlink'' p), w1)
      | Some content \<Rightarrow>
          (case out of
             Some e \<Rightarrow> (Inl e, w1)
           | None \<Rightarrow> (Inr (), w1\<lparr>files := (files w1)(norm_path p := None)\<rparr>)))"

text \<open>Lines 64 to 71: \<open>ensureDirectoryExists\<close> contains the failure of \<open>mkdir\<close>.\<close>

definition ensureDirectoryExists :: "error option \<Rightarrow> string \<Rightarrow> world \<Rightarrow> world" where
  "ensureDirectoryExists out dirPath w =
     (let w1 = called (Mkdir dirPath) w in
      case out of
        None \<Rightarrow> logger_info (''Directory created: '' @ dirPath) w1
      | Some e \<Rightarrow>
          logger_error (''Error creating directory '' @ dirPath @ '': '' @ message e) w1)"

section \<open>ResultRecordBuilder and the tabular store: \<open>saveToGoogleSheets\<close>\<close>

definition category_names :: "string list" where
  "category_names = [''performance'', ''accessibility'', ''best-practices'', ''seo'', ''pwa'']"

text \<open>
  The expression \<open>r.lhr.categories.k?.score ?? "N/A"\<close> (written with \<open>["best-practices"]\<close>
  for that key), which both \<open>runAndSave\<close> and \<open>saveToGoogleSheets\<close> evaluate for each of
  the five categories.
\<close>

definition score_or_NA :: "jsval \<Rightarrow> string \<Rightarrow> error + jsval" where
  "score_or_NA r k =
     (case path_get r [''lhr'', ''categories'', k] of
        Inl e \<Rightarrow> Inl e
      | Inr c \<Rightarrow> Inr (coalesce (opt_prop c ''score'') (JStr ''N/A'')))"

text \<open>Lines 95 to 108: the row of the first variant.\<close>

definition values1 :: "jsval \<Rightarrow> error + jsval list" where
  "values1 data =
     collect
       [get_prop data ''date'',
        get_prop data ''device'',
        get_prop data ''urlKey'',
        path_get data [''lhr'', ''finalUrl''],
        score_or_NA data ''performance'',
        score_or_NA data ''accessibility'',
        score_or_NA data ''best-practices'',
        score_or_NA data ''seo'',
        score_or_NA data ''pwa'',
        path_get data [''lhr'', ''userAgent'']]"

text \<open>Lines 392 to 406: the row of the second variant, which ends with the link.\<close>

definition values2 :: "jsval \<Rightarrow> error + jsval list" where
  "values2 data =
     collect
       [get_prop data ''date'',
        get_prop data ''device'',
        get_prop data ''urlKey'',
        path_get data [''lhr'', ''finalUrl''],
        score_or_NA data ''performance'',
        score_or_NA data ''accessibility'',
        score_or_NA data ''best-practices'',
        score_or_NA data ''seo'',
        score_or_NA data ''pwa'',
        path_get data [''lhr'', ''userAgent''],
        get_prop data ''link'']"

definition sheet_range :: string where
  "sheet_range = ''2024!A1''"

text \<open>
  Lines 92 to 125 and 389 to 423. \<open>saveToGoogleSheets\<close> is the same text in both variants
  but for the row, which is the parameter \<open>vals\<close>. A failure of \<open>auth.getClient()\<close> or of
  building the row is thrown without a log line; a failure of the append is logged and
  thrown again.
\<close>

definition saveToGoogleSheets ::
  "(jsval \<Rightarrow> error + jsval list) \<Rightarrow> task_env \<Rightarrow> jsval \<Rightarrow> world \<Rightarrow> (error + unit) \<times> world" where
  "saveToGoogleSheets vals env data w =
     (let w1 = called GetAuthClient w in
      case auth_out env of
        Some e \<Rightarrow> (Inl e, w1)
      | None \<Rightarrow>
          (case vals data of
             Inl e \<Rightarrow> (Inl e, w1)
           | Inr row \<Rightarrow>
               (let w2 = called (SheetsAppend sheet_range row) w1 in
                case append_out env of
                  None \<Rightarrow>
                    (Inr (), logger_info ''Data saved to Google Sheets''
                               (w2\<lparr>sheet := sheet w2 @ [row]\<rparr>))
                | Some e \<Rightarrow>
                    (Inl e, logger_error
                              (''Error saving data to Google Sheets: '' @ message e) w2))))"

definition saveToGoogleSheets1 :: "task_env \<Rightarrow> jsval \<Rightarrow> world \<Rightarrow> (error + unit) \<times> world" where
  "saveToGoogleSheets1 = saveToGoogleSheets values1"

definition saveToGoogleSheets2 :: "task_env \<Rightarrow> jsval \<Rightarrow> world \<Rightarrow> (error + unit) \<times> world" where
  "saveToGoogleSheets2 = saveToGoogleSheets values2"

text \<open>
  The object literal that \<open>runAndSave\<close> passes to \<open>saveToGoogleSheets\<close> (lines 202 to 223,
  and 504 to 526 with the link): its properties are evaluated in the order written.
\<close>

definition sheet_data ::
  "jsval \<Rightarrow> string \<Rightarrow> string \<Rightarrow> string \<Rightarrow> (string \<times> jsval) list \<Rightarrow> error + jsval" where
  "sheet_data result dev date urlKey extra =
     (case path_get result [''lhr'', ''finalUrl''] of
        Inl e \<Rightarrow> Inl e
      | Inr finalUrl \<Rightarrow>
          (case collect (map (score_or_NA result) category_names) of
             Inl e \<Rightarrow> Inl e
           | Inr scores \<Rightarrow>
               (case path_get result [''lhr'', ''userAgent''] of
                  Inl e \<Rightarrow> Inl e
                | Inr userAgent \<Rightarrow>
                    Inr (JObj
                      ([(''lhr'', JObj
                          [(''finalUrl'', finalUrl),
                           (''categories'',
                              JObj (zip category_names
                                      (map (\<lambda>s. JObj [(''score'', s)]) scores))),
                           (''userAgent'', userAgent)]),
                        (''device'', JStr dev),
                        (''date'', JStr date),
                        (''urlKey'', JStr urlKey)] @ extra)))))"

text \<open>
  Lines 196 to 199 and 498 to 501: the check of the structure of \<open>result.lhr\<close>.
\<close>

definition invalid_structure :: error where
  "invalid_structure = JsError ''Error'' ''Invalid Lighthouse result structure''"

definition check_structure :: "jsval \<Rightarrow> error + unit" where
  "check_structure result =
     (case get_prop result ''lhr'' of
        Inl e \<Rightarrow> Inl e
      | Inr lhr \<Rightarrow>
          (if falsy lhr then Inl invalid_structure
           else (case get_prop lhr ''categories'' of
                   Inl e \<Rightarrow> Inl e
                 | Inr categories \<Rightarrow>
                     (if falsy categories then Inl invalid_structure else Inr ()))))"

section \<open>ArtifactNamer\<close>

text \<open>Lines 186 to 188 and 483 to 485: the display file name.\<close>

definition fileName_of :: "string \<Rightarrow> string \<Rightarrow> string \<Rightarrow> string" where
  "fileName_of isoTime urlKey dev = isoTime @ ''-'' @ urlKey @ ''-lighthouse-report-'' @ dev @ ''.html''"

text \<open>
  Line 491: the storage path of the second variant. Its date prefix is formatted from a clock
  reading of its own (line 490), not from \<open>startTime\<close>.
\<close>

definition s3Path_of :: "string \<Rightarrow> string \<Rightarrow> string" where
  "s3Path_of datePrefix fileName = datePrefix @ ''/'' @ fileName"

section \<open>The blob store: \<open>uploadToS3\<close> of the first variant\<close>

text \<open>
  Lines 128 to 153. The date prefix is read from the clock inside the function. The read of
  the file is outside the \<open>try\<close>, so its failure is thrown without a log line.
\<close>

definition uploadToS3 ::
  "platform \<Rightarrow> task_env \<Rightarrow> string \<Rightarrow> string option \<Rightarrow> string \<Rightarrow> world
     \<Rightarrow> (error + unit) \<times> world" where
  "uploadToS3 P env filePath bucketName key w =
     (let datePrefix = format_yyyy_MM_dd (p_utc_offset P (t_archive env)) (t_archive env);
          s3Key = path_join datePrefix key
      in case fs_readFile (read_out env) filePath w of
           (Inl e, w1) \<Rightarrow> (Inl e, w1)
         | (Inr fileContent, w1) \<Rightarrow>
             (let w2 = called (S3Send bucketName s3Key) w1 in
              case send_out env of
                None \<Rightarrow>
                  (Inr (), logger_info (''File uploaded to S3: '' @ s3Key)
                             (w2\<lparr>objects := objects w2 @ [(bucketName, s3Key, fileContent)]\<rparr>))
              | Some e \<Rightarrow>
                  (Inl e, logger_error (''Error uploading file to S3: '' @ message e) w2)))"

section \<open>AuditRunner: \<open>runLighthouse\<close>\<close>

record opts1 =
  formFactor :: string
  screenEmulation_disabled :: "bool option"
  output_opt :: string

definition desktopOpts1 :: opts1 where
  "desktopOpts1 =
     \<lparr>formFactor = ''desktop'', screenEmulation_disabled = Some True, output_opt = ''html''\<rparr>"

definition mobileOpts1 :: opts1 where
  "mobileOpts1 = \<lparr>formFactor = ''mobile'', screenEmulation_disabled = None, output_opt = ''html''\<rparr>"

text \<open>
  Lines 74 to 89. Chrome is launched outside the \<open>try\<close>; the \<open>finally\<close> kills it on both
  paths, and a failure of the kill replaces the outcome of the \<open>try\<close>. (The assignment
  \<open>opts.port = chrome.port\<close> is left out: nothing modelled reads the port.)
\<close>

definition runLighthouse1 ::
  "task_env \<Rightarrow> string \<Rightarrow> opts1 \<Rightarrow> world \<Rightarrow> (error + jsval) \<times> world" where
  "runLighthouse1 env url opts w =
     (let w1 = called LaunchChrome w in
      case launch_out env of
        Some e \<Rightarrow> (Inl e, w1)
      | None \<Rightarrow>
          (let w2 = called (Lighthouse url (formFactor opts)) w1;
               w3 = (case engine_out env of
                       Inr result \<Rightarrow> logger_info (''Lighthouse run successful for '' @ url) w2
                     | Inl e \<Rightarrow>
                         logger_error
                           (''Error running Lighthouse for '' @ url @ '': '' @ message e) w2);
               w4 = called KillChrome w3
           in case kill_out env of
                Some e \<Rightarrow> (Inl e, w4)
              | None \<Rightarrow>
                  (engine_out env, logger_info (''Chrome instance killed for '' @ url) w4)))"

record screen_size =
  width :: nat
  height :: nat
  deviceScaleFactor :: rat
  mobile :: bool
  disabled :: bool

record opts2 =
  device :: string
  size_opt :: screen_size
  output_opt2 :: string

definition desktopOpts2 :: opts2 where
  "desktopOpts2 =
     \<lparr>device = ''desktop'',
      size_opt = \<lparr>width = 1366, height = 768, deviceScaleFactor = 1, mobile = False,
                  disabled = False\<rparr>,
      output_opt2 = ''html''\<rparr>"

definition mobileOpts2 :: opts2 where
  "mobileOpts2 =
     \<lparr>device = ''mobile'',
      size_opt = \<lparr>width = 375, height = 667, deviceScaleFactor = 175 / 100, mobile = True,
                  disabled = False\<rparr>,
      output_opt2 = ''html''\<rparr>"

definition screenEmulation_flags :: "string \<Rightarrow> screen_size \<Rightarrow> string" where
  "screenEmulation_flags dev sz =
     (if dev = ''mobile'' then
        ''--screenEmulation.mobile --screenEmulation.width='' @ dec (int (width sz))
        @ '' --screenEmulation.height='' @ dec (int (height sz))
        @ '' --screenEmulation.deviceScaleFactor=2''
      else if dev = ''desktop'' then
        ''--screenEmulation.mobile=false --screenEmulation.width='' @ dec (int (width sz))
        @ '' --screenEmulation.height='' @ dec (int (height sz))
        @ '' --screenEmulation.deviceScaleFactor=1 --preset=desktop''
      else [])"

definition lighthouse_command :: "string \<Rightarrow> string \<Rightarrow> screen_size \<Rightarrow> time \<Rightarrow> string" where
  "lighthouse_command url dev sz ident =
     ''lighthouse '' @ url @ '' --chrome-flags='' @ [CHR 0x22] @ ''--headless'' @ [CHR 0x22]
     @ '' --output=json --output=html --output-path=./outputs/'' @ dec ident
     @ '' --quiet --form-factor='' @ dev @ '' '' @ screenEmulation_flags dev sz"

text \<open>
  The files that the engine subprocess leaves under its output path \<open>./outputs/<id>\<close>: the
  engine adds \<open>.report.html\<close> and \<open>.report.json\<close> to it.
\<close>

definition exec_writes :: "task_env \<Rightarrow> time \<Rightarrow> world \<Rightarrow> world" where
  "exec_writes env ident w =
     (let w1 = (case exec_html env of
                  None \<Rightarrow> w
                | Some c \<Rightarrow>
                    w\<lparr>files := (files w)
                        (norm_path (''./outputs/'' @ dec ident @ ''.report.html'') \<mapsto> c)\<rparr>)
      in case exec_json env of
           None \<Rightarrow> w1
         | Some c \<Rightarrow>
             w1\<lparr>files := (files w1)
                 (norm_path (''./outputs/'' @ dec ident @ ''.report.json'') \<mapsto> c)\<rparr>)"

definition log_stderr :: "task_env \<Rightarrow> string \<Rightarrow> world \<Rightarrow> world" where
  "log_stderr env url w =
     (if exec_stderr env \<noteq> []
      then logger_error (''Lighthouse stderr for '' @ url @ '': '' @ exec_stderr env) w
      else w)"

text \<open>
  Lines 356 to 387. The promise is rejected when the subprocess fails and fulfilled with
  \<open>{lhr: ...}\<close> when the JSON report is read and parsed. When the read or the parse throws,
  the exception is raised inside the asynchronous callback of \<open>exec\<close>, where nothing
  catches it: the promise is never settled.
\<close>

definition runLighthouse2 ::
  "platform \<Rightarrow> task_env \<Rightarrow> string \<Rightarrow> string \<Rightarrow> screen_size \<Rightarrow> time \<Rightarrow> world
     \<Rightarrow> jsval completion \<times> world" where
  "runLighthouse2 P env url dev sz ident w =
     (let command = lighthouse_command url dev sz ident;
          w1 = logger_info (''Running command '' @ command) w;
          w2 = exec_writes env ident (called (Exec command) w1)
      in case exec_error env of
           Some e \<Rightarrow>
             (Throws e,
              log_stderr env url
                (logger_error (''Error running Lighthouse for '' @ url @ '': '' @ message e) w2))
         | None \<Rightarrow>
             (let w3 = logger_info (''Lighthouse run successful for '' @ url) w2 in
              case fs_readFile (read_json_out env) (''./outputs/'' @ dec ident @ ''.report.json'') w3 of
                (Inl e, w4) \<Rightarrow> (Pending, w4)
              | (Inr jsonContent, w4) \<Rightarrow>
                  (case p_JSON_parse P jsonContent of
                     Inl e \<Rightarrow> (Pending, w4)
                   | Inr lhr \<Rightarrow> (Returns (JObj [(''lhr'', lhr)]), log_stderr env url w4))))"

section \<open>PublishCoordinator: \<open>runAndSave\<close>\<close>

text \<open>Lines 191 to 226: the body of the \<open>try\<close> of the first variant.\<close>

definition runAndSave1_try ::
  "platform \<Rightarrow> task_env \<Rightarrow> jsval \<Rightarrow> opts1 \<Rightarrow> string option \<Rightarrow> string \<Rightarrow> string \<Rightarrow> string
     \<Rightarrow> string \<Rightarrow> world \<Rightarrow> (error + unit) \<times> world" where
  "runAndSave1_try P env result opts bucketName isoTime urlKey fileName filePath w =
     (case get_prop result ''report'' of
        Inl e \<Rightarrow> (Inl e, w)
      | Inr report \<Rightarrow>
          (case fs_writeFile (write_out env) (write_chunks_out env) filePath report w of
             (Inl e, w1) \<Rightarrow> (Inl e, w1)
           | (Inr u, w1) \<Rightarrow>
               (let w2 = logger_info (''HTML report written to file: '' @ filePath) w1 in
                case check_structure result of
                  Inl e \<Rightarrow> (Inl e, w2)
                | Inr u \<Rightarrow>
                    (case sheet_data result (formFactor opts) isoTime urlKey [] of
                       Inl e \<Rightarrow> (Inl e, w2)
                     | Inr data \<Rightarrow>
                         (case saveToGoogleSheets1 env data w2 of
                            (Inl e, w3) \<Rightarrow> (Inl e, w3)
                          | (Inr u, w3) \<Rightarrow>
                              uploadToS3 P env filePath bucketName fileName w3)))))"

text \<open>Lines 229 to 237: the \<open>finally\<close> of the first variant.\<close>

definition runAndSave1_finally :: "task_env \<Rightarrow> string \<Rightarrow> world \<Rightarrow> world" where
  "runAndSave1_finally env filePath w =
     (case fs_unlink (unlink_out env) filePath w of
        (Inr u, w1) \<Rightarrow> logger_info (''Local HTML file deleted: '' @ filePath) w1
      | (Inl e, w1) \<Rightarrow> logger_error (''Error deleting local HTML file: '' @ message e) w1)"

text \<open>Lines 167 to 242.\<close>

definition runAndSave1 ::
  "platform \<Rightarrow> task_env \<Rightarrow> string \<Rightarrow> opts1 \<Rightarrow> string option \<Rightarrow> world
     \<Rightarrow> unit completion \<times> world" where
  "runAndSave1 P env url opts bucketName w =
     (let startTime = t_start env in
      case hashStringTo12Digits (p_sha256 P) url of
        Inl e \<Rightarrow> (Throws e, w)
      | Inr urlKey \<Rightarrow>
          (let isoTime = toISOString startTime;
               w1 = logger_info (''Processing started at '' @ isoTime @ '' for URL: '' @ url) w;
               w2 = ensureDirectoryExists (mkdir_out env) ''outputs'' w1
           in case runLighthouse1 env url opts w2 of
                (Inl e, w3) \<Rightarrow>
                  (Returns (),
                   logger_error (''Error running Lighthouse for '' @ url @ '': '' @ message e) w3)
              | (Inr result, w3) \<Rightarrow>
                  (let w4 = logger_info (''Lighthouse run successful for '' @ url) w3;
                       fileName = fileName_of isoTime urlKey (formFactor opts);
                       filePath = path_join ''outputs'' fileName;
                       tried = runAndSave1_try P env result opts bucketName isoTime urlKey fileName
                                 filePath w4;
                       w5 = (case fst tried of
                               Inl e \<Rightarrow>
                                 logger_error
                                   (''Error during saving or uploading: '' @ message e) (snd tried)
                             | Inr u \<Rightarrow> snd tried);
                       w6 = runAndSave1_finally env filePath w5;
                       endTime = t_end env;
                       w7 = logger_info
                              (''Processing ended at '' @ toISOString endTime @ '' for URL: '' @ url)
                              w6
                   in (Returns (),
                       logger_info (''Processing time: '' @ dec (endTime - startTime) @ '' ms'') w7))))"

text \<open>
  Lines 494 to 529: the body of the \<open>try\<close> of the second variant. No file is written here
  (the subprocess wrote the report), and the upload is commented out.
\<close>

definition env_or_undefined :: "string option \<Rightarrow> string" where
  "env_or_undefined v = (case v of None \<Rightarrow> ''undefined'' | Some s \<Rightarrow> s)"

definition runAndSave2_try ::
  "task_env \<Rightarrow> jsval \<Rightarrow> opts2 \<Rightarrow> string \<Rightarrow> string \<Rightarrow> string \<Rightarrow> string \<Rightarrow> world
     \<Rightarrow> (error + unit) \<times> world" where
  "runAndSave2_try env result opts isoTime urlKey link filePath w =
     (let w1 = logger_info (''HTML report written to file: '' @ filePath) w in
      case check_structure result of
        Inl e \<Rightarrow> (Inl e, w1)
      | Inr u \<Rightarrow>
          (case sheet_data result (device opts) isoTime urlKey [(''link'', JStr link)] of
             Inl e \<Rightarrow> (Inl e, w1)
           | Inr data \<Rightarrow> saveToGoogleSheets2 env data w1))"

text \<open>
  Lines 459 to 546. In the \<open>finally\<close> (lines 532 to 541) both \<open>unlink\<close> calls are commented
  out; the log line that reports the deletion is still written.
\<close>

definition runAndSave2 ::
  "platform \<Rightarrow> task_env \<Rightarrow> string \<Rightarrow> opts2 \<Rightarrow> string option \<Rightarrow> world
     \<Rightarrow> unit completion \<times> world" where
  "runAndSave2 P env url opts bucketName w =
     (let startTime = t_start env in
      case hashStringTo12Digits (p_sha256 P) url of
        Inl e \<Rightarrow> (Throws e, w)
      | Inr urlKey \<Rightarrow>
          (let isoTime = toISOString startTime;
               w1 = logger_info (''Processing started at '' @ isoTime @ '' for URL: '' @ url) w;
               w2 = ensureDirectoryExists (mkdir_out env) ''outputs'' w1
           in case runLighthouse2 P env url (device opts) (size_opt opts) startTime w2 of
                (Throws e, w3) \<Rightarrow>
                  (Returns (),
                   logger_error (''Error running Lighthouse for '' @ url @ '': '' @ message e) w3)
              | (Pending, w3) \<Rightarrow> (Pending, w3)
              | (Returns result, w3) \<Rightarrow>
                  (let w4 = logger_info (''Lighthouse run successful for '' @ url) w3;
                       fileName = fileName_of isoTime urlKey (device opts);
                       tempName = dec startTime @ ''.report.html'';
                       jsonTempName = dec startTime @ ''.report.json'';
                       filePath = path_join ''outputs'' tempName;
                       jsonFilePath = path_join ''outputs'' jsonTempName;
                       datePrefix = format_yyyy_MM_dd (p_utc_offset P (t_archive env)) (t_archive env);
                       s3Path = s3Path_of datePrefix fileName;
                       link = env_or_undefined (HOST P) @ ''/'' @ s3Path;
                       tried = runAndSave2_try env result opts isoTime urlKey link filePath w4;
                       w5 = (case fst tried of
                               Inl e \<Rightarrow>
                                 logger_error
                                   (''Error during saving or uploading: '' @ message e) (snd tried)
                             | Inr u \<Rightarrow> snd tried);
                       w6 = logger_info (''Local HTML file deleted: '' @ filePath) w5;
                       endTime = t_end env;
                       w7 = logger_info
                              (''Processing ended at '' @ toISOString endTime @ '' for URL: '' @ url)
                              w6
                   in (Returns (),
                       logger_info (''Processing time: '' @ dec (endTime - startTime) @ '' ms'') w7))))"

section \<open>BatchDriver: \<open>processLighthouse\<close>\<close>

text \<open>\<open>s.split(",")\<close>: the pieces between the commas; one empty piece for the empty string.\<close>

fun split_comma :: "string \<Rightarrow> string list" where
  "split_comma [] = [[]]"
| "split_comma (c # cs) =
     (if c = CHR '','' then [] # split_comma cs
      else (case split_comma cs of
              [] \<Rightarrow> [[c]]
            | piece # pieces \<Rightarrow> (c # piece) # pieces))"

text \<open>
  Lines 259 to 263 and 576 to 580: the loop over the URLs. The coordinator is the parameter
  \<open>run\<close>, so that the driver can be studied with a coordinator that throws; its first
  argument counts the calls of the batch and selects what the surroundings do during that
  call. A call that throws ends the loop, as the exception leaves it, and so does a call that
  never returns.
\<close>

fun batch_loop ::
  "(nat \<Rightarrow> string \<Rightarrow> 'o \<Rightarrow> string option \<Rightarrow> world \<Rightarrow> unit completion \<times> world)
     \<Rightarrow> 'o \<Rightarrow> 'o \<Rightarrow> string option \<Rightarrow> nat \<Rightarrow> string list \<Rightarrow> world
     \<Rightarrow> unit completion \<times> world" where
  "batch_loop run desktopOpts mobileOpts bucketName k [] w = (Returns (), w)"
| "batch_loop run desktopOpts mobileOpts bucketName k (url # urls) w =
     (case run k url desktopOpts bucketName w of
        (Returns u, w1) \<Rightarrow>
          (case run (k + 1) url mobileOpts bucketName w1 of
             (Returns u, w2) \<Rightarrow> batch_loop run desktopOpts mobileOpts bucketName (k + 2) urls w2
           | (Throws e, w2) \<Rightarrow> (Throws e, w2)
           | (Pending, w2) \<Rightarrow> (Pending, w2))
      | (Throws e, w1) \<Rightarrow> (Throws e, w1)
      | (Pending, w1) \<Rightarrow> (Pending, w1))"

text \<open>
  Lines 255 to 267 and 572 to 584. \<open>TARGET_URL\<close> is read outside the \<open>try\<close>, so an unset
  variable is a TypeError of \<open>processLighthouse\<close> itself. The \<open>try\<close> encloses the whole
  loop.
\<close>

definition processLighthouse ::
  "(nat \<Rightarrow> string \<Rightarrow> 'o \<Rightarrow> string option \<Rightarrow> world \<Rightarrow> unit completion \<times> world)
     \<Rightarrow> 'o \<Rightarrow> 'o \<Rightarrow> platform \<Rightarrow> world \<Rightarrow> unit completion \<times> world" where
  "processLighthouse run desktopOpts mobileOpts P w =
     (case TARGET_URL P of
        None \<Rightarrow>
          (Throws (JsError ''TypeError''
                     (''Cannot read properties of undefined (reading '' @ [CHR 0x27] @ ''split''
                      @ [CHR 0x27] @ '')'')), w)
      | Some target \<Rightarrow>
          (let urls = split_comma target;
               bucketName = S3_BUCKET_NAME P
           in case batch_loop run desktopOpts mobileOpts bucketName 0 urls w of
                (Throws e, w1) \<Rightarrow>
                  (Returns (), logger_error (''Error during scheduled task: '' @ message e) w1)
              | (Returns u, w1) \<Rightarrow> (Returns (), w1)
              | (Pending, w1) \<Rightarrow> (Pending, w1)))"

definition processLighthouse1 ::
  "platform \<Rightarrow> (nat \<Rightarrow> task_env) \<Rightarrow> world \<Rightarrow> unit completion \<times> world" where
  "processLighthouse1 P envs =
     processLighthouse (\<lambda>k. runAndSave1 P (envs k)) desktopOpts1 mobileOpts1 P"

definition processLighthouse2 ::
  "platform \<Rightarrow> (nat \<Rightarrow> task_env) \<Rightarrow> world \<Rightarrow> unit completion \<times> world" where
  "processLighthouse2 P envs =
     processLighthouse (\<lambda>k. runAndSave2 P (envs k)) desktopOpts2 mobileOpts2 P"

section \<open>The columns of a ResultRecord, as the specification names them\<close>

text \<open>
  The value of a report at a property of \<open>lhr\<close>, and the score column of a category: the
  score of the category, or the sentinel when the category or its score is \<open>undefined\<close> or
  \<open>null\<close>.
\<close>

definition report_field :: "jsval \<Rightarrow> string \<Rightarrow> jsval" where
  "report_field result k = opt_prop (opt_prop result ''lhr'') k"

definition category_of :: "jsval \<Rightarrow> string \<Rightarrow> jsval" where
  "category_of result k = opt_prop (report_field result ''categories'') k"

definition score_column :: "jsval \<Rightarrow> string \<Rightarrow> jsval" where
  "score_column result k =
     (if nullish (category_of result k) \<or> nullish (opt_prop (category_of result k) ''score'')
      then JStr ''N/A''
      else opt_prop (category_of result k) ''score'')"

text \<open>
  The ten columns date, device, urlKey, finalUrl, performance, accessibility, bestPractices,
  seo, pwa, userAgent of a record, in this order.
\<close>

definition record_columns :: "jsval \<Rightarrow> string \<Rightarrow> string \<Rightarrow> string \<Rightarrow> jsval list" where
  "record_columns result date dev urlKey =
     [JStr date, JStr dev, JStr urlKey, report_field result ''finalUrl'',
      score_column result ''performance'', score_column result ''accessibility'',
      score_column result ''best-practices'', score_column result ''seo'',
      score_column result ''pwa'', report_field result ''userAgent'']"

text \<open>The five score columns of a row, each with the name of its category.\<close>

definition category_columns :: "jsval list \<Rightarrow> (string \<times> jsval) list" where
  "category_columns row = zip category_names (take 5 (drop 4 row))"

text \<open>The object that \<open>runAndSave\<close> hands to \<open>saveToGoogleSheets\<close> for a valid report.\<close>

definition data_of :: "jsval \<Rightarrow> string \<Rightarrow> string \<Rightarrow> string \<Rightarrow> (string \<times> jsval) list \<Rightarrow> jsval" where
  "data_of result dev date urlKey extra =
     JObj ([(''lhr'', JObj
               [(''finalUrl'', report_field result ''finalUrl''),
                (''categories'',
                   JObj [(''performance'', JObj [(''score'', score_column result ''performance'')]),
                         (''accessibility'', JObj [(''score'', score_column result ''accessibility'')]),
                         (''best-practices'', JObj [(''score'', score_column result ''best-practices'')]),
                         (''seo'', JObj [(''score'', score_column result ''seo'')]),
                         (''pwa'', JObj [(''score'', score_column result ''pwa'')])]),
                (''userAgent'', report_field result ''userAgent'')]),
            (''device'', JStr dev), (''date'', JStr date), (''urlKey'', JStr urlKey)] @ extra)"

text \<open>The key of a URL, as \<open>runAndSave\<close> uses it once the derivation has returned.\<close>

definition urlKey_of :: "platform \<Rightarrow> string \<Rightarrow> string" where
  "urlKey_of P url =
     padStart 12 (CHR ''0'') (slice0 12 (digits_radix 36 (unat (p_sha256 P url))))"

text \<open>The names that one task of each variant derives.\<close>

definition filePath1 :: "platform \<Rightarrow> task_env \<Rightarrow> string \<Rightarrow> opts1 \<Rightarrow> string" where
  "filePath1 P env url opts =
     path_join ''outputs''
       (fileName_of (toISOString (t_start env)) (urlKey_of P url) (formFactor opts))"

definition s3Key1 :: "platform \<Rightarrow> task_env \<Rightarrow> string \<Rightarrow> opts1 \<Rightarrow> string" where
  "s3Key1 P env url opts =
     path_join (format_yyyy_MM_dd (p_utc_offset P (t_archive env)) (t_archive env))
       (fileName_of (toISOString (t_start env)) (urlKey_of P url) (formFactor opts))"

definition link2 :: "platform \<Rightarrow> task_env \<Rightarrow> string \<Rightarrow> opts2 \<Rightarrow> string" where
  "link2 P env url opts =
     env_or_undefined (HOST P) @ ''/''
     @ s3Path_of (format_yyyy_MM_dd (p_utc_offset P (t_archive env)) (t_archive env))
         (fileName_of (toISOString (t_start env)) (urlKey_of P url) (device opts))"

text \<open>The calls of a trace that send an object to the bucket.\<close>

fun is_S3Send :: "call \<Rightarrow> bool" where
  "is_S3Send (S3Send b k) = True"
| "is_S3Send c = False"

text \<open>The calls of a trace that remove a file.\<close>

fun is_Unlink :: "call \<Rightarrow> bool" where
  "is_Unlink (Unlink p) = True"
| "is_Unlink c = False"

text \<open>The rows that a trace passes to the append of the tabular store.\<close>

fun appended_rows :: "call list \<Rightarrow> jsval list list" where
  "appended_rows [] = []"
| "appended_rows (SheetsAppend r row # cs) = row # appended_rows cs"
| "appended_rows (c # cs) = appended_rows cs"

text \<open>
  The task sequence of the specification: for each URL in order, the desktop task and then
  the mobile task; and the execution of a task list in order by a coordinator, which stops at
  the first task that does not return.
\<close>

definition task_sequence :: "'o \<Rightarrow> 'o \<Rightarrow> string list \<Rightarrow> (string \<times> 'o) list" where
  "task_sequence desktopOpts mobileOpts urls =
     concat (map (\<lambda>url. [(url, desktopOpts), (url, mobileOpts)]) urls)"

fun run_tasks ::
  "(nat \<Rightarrow> string \<Rightarrow> 'o \<Rightarrow> string option \<Rightarrow> world \<Rightarrow> unit completion \<times> world)
     \<Rightarrow> string option \<Rightarrow> nat \<Rightarrow> (string \<times> 'o) list \<Rightarrow> world \<Rightarrow> unit completion \<times> world" where
  "run_tasks run bucketName k [] w = (Returns (), w)"
| "run_tasks run bucketName k ((url, opts) # tasks) w =
     (case run k url opts bucketName w of
        (Returns u, w1) \<Rightarrow> run_tasks run bucketName (k + 1) tasks w1
      | (Throws e, w1) \<Rightarrow> (Throws e, w1)
      | (Pending, w1) \<Rightarrow> (Pending, w1))"

text \<open>
  Whether \<open>fs.writeFile\<close> succeeds on some data during a task, and whether the first variant
  gets as far as the append for a result of the engine: the report is written, the structure
  check passes and the client of the sheet is obtained.
\<close>

definition writes :: "task_env \<Rightarrow> jsval \<Rightarrow> bool" where
  "writes env data =
     (write_out env = None \<and>
      (case data of
         JStr content \<Rightarrow> True
       | JArr chunks \<Rightarrow>
           fst (write_chunks_out env data) = None \<or> string_chunks chunks \<noteq> None
       | _ \<Rightarrow> False))"

definition reaches_append1 :: "task_env \<Rightarrow> jsval \<Rightarrow> bool" where
  "reaches_append1 env result \<longleftrightarrow>
     (\<exists>report. get_prop result ''report'' = Inr report \<and> writes env report) \<and>
     check_structure result = Inr () \<and> auth_out env = None"

text \<open>What \<open>runLighthouse\<close> of the first variant gives back to \<open>runAndSave\<close>.\<close>

definition engine_result1 :: "task_env \<Rightarrow> error + jsval" where
  "engine_result1 env =
     (case launch_out env of
        Some e \<Rightarrow> Inl e
      | None \<Rightarrow> (case kill_out env of Some e \<Rightarrow> Inl e | None \<Rightarrow> engine_out env))"

text \<open>
  A path component that \<open>path.join\<close> leaves as it is: not empty, without a slash, and
  neither \<open>.\<close> nor \<open>..\<close>.
\<close>

definition plain_segment :: "string \<Rightarrow> bool" where
  "plain_segment s \<longleftrightarrow> s \<noteq> [] \<and> CHR ''/'' \<notin> set s \<and> s \<noteq> ''.'' \<and> s \<noteq> ''..''"

text \<open>
  The pattern of a string, as the specification writes the shapes of dates: every decimal
  digit is replaced by \<open>9\<close>, every other character is kept. The pattern of
  \<open>2024-05-01\<close> is \<open>9999-99-99\<close>.
\<close>

definition digit_pattern :: "string \<Rightarrow> string" where
  "digit_pattern s = map (\<lambda>c. if c \<in> set ''0123456789'' then CHR ''9'' else c) s"

section \<open>Sample inputs\<close>

definition sample_lhr :: jsval where
  "sample_lhr =
     JObj [(''finalUrl'', JStr ''https://example1.com/''),
           (''categories'',
              JObj [(''performance'', JObj [(''score'', JNum (98 / 100))]),
                    (''accessibility'', JObj [(''score'', JNum 1)]),
                    (''best-practices'', JObj [(''score'', JNum (3 / 4))]),
                    (''seo'', JObj [(''score'', JNum 0)])]),
           (''userAgent'', JStr ''Mozilla/5.0'')]"

definition sample_result :: jsval where
  "sample_result = JObj [(''lhr'', sample_lhr), (''report'', JStr ''<html></html>'')]"

text \<open>A report with categories and no final URL, and one with a final URL and no categories.\<close>

definition lhr_without_finalUrl :: jsval where
  "lhr_without_finalUrl =
     JObj [(''categories'', JObj [(''performance'', JObj [(''score'', JNum 1)])]),
           (''userAgent'', JStr ''Mozilla/5.0'')]"

definition lhr_without_categories :: jsval where
  "lhr_without_categories =
     JObj [(''finalUrl'', JStr ''https://example1.com/''), (''userAgent'', JStr ''Mozilla/5.0'')]"

definition result_without_finalUrl :: jsval where
  "result_without_finalUrl =
     JObj [(''lhr'', lhr_without_finalUrl), (''report'', JStr ''<html></html>'')]"

definition result_without_categories :: jsval where
  "result_without_categories =
     JObj [(''lhr'', lhr_without_categories), (''report'', JStr ''<html></html>'')]"

definition sample_json :: string where
  "sample_json = ''{...}''"

definition sample_platform :: platform where
  "sample_platform =
     \<lparr>p_sha256 = (\<lambda>u. 0x3f),
      p_JSON_parse = (\<lambda>s. if s = sample_json then Inr sample_lhr
                           else Inl (JsError ''SyntaxError'' ''Unexpected end of JSON input'')),
      p_utc_offset = (\<lambda>t. 0),
      TARGET_URL = Some ''a,b'',
      S3_BUCKET_NAME = Some ''reports'',
      HOST = Some ''https://cdn.example.com''\<rparr>"

definition env_ok :: task_env where
  "env_ok =
     \<lparr>t_start = 1714557600000, t_archive = 1714557601500, t_end = 1714557602000,
      mkdir_out = None, launch_out = None, engine_out = Inr sample_result, kill_out = None,
      exec_error = None, exec_stderr = [], exec_html = Some ''<html></html>'',
      exec_json = Some sample_json, read_json_out = None, write_out = None,
      write_chunks_out = (\<lambda>data. (None, [])), auth_out = None,
      append_out = None, read_out = None, send_out = None, unlink_out = None\<rparr>"

text \<open>
  The sample surroundings with another result of the engine, and the sample platform with a
  JSON parser that gives another report.
\<close>

definition env_with :: "jsval \<Rightarrow> task_env" where
  "env_with result = env_ok\<lparr>engine_out := Inr result\<rparr>"

definition platform_with :: "jsval \<Rightarrow> platform" where
  "platform_with lhr = sample_platform\<lparr>p_JSON_parse := (\<lambda>s. Inr lhr)\<rparr>"

definition quota_error :: error where
  "quota_error = JsError ''Error'' ''Quota exceeded''"

definition env_append_fails :: task_env where
  "env_append_fails = env_ok\<lparr>append_out := Some quota_error\<rparr>"

text \<open>
  A platform under which every URL has the key of the example of the specification, and a
  task that starts in the last millisecond of 1 May 2024 (UTC) and is archived on 2 May.
\<close>

definition example_platform :: platform where
  "example_platform = sample_platform\<lparr>p_sha256 := (\<lambda>u. 1356542952296776746)\<rparr>"

definition env_late :: task_env where
  "env_late = env_ok\<lparr>t_start := 1714607999999, t_archive := 1714608000000\<rparr>"

definition w0 :: world where
  "w0 = \<lparr>files = Map.empty, sheet = [], objects = [], logs = [], calls = []\<rparr>"

text \<open>
  A coordinator that records its task in the trace, and one that does so and then throws on
  the URL \<open>a\<close>.
\<close>

definition recording_run ::
  "nat \<Rightarrow> string \<Rightarrow> opts2 \<Rightarrow> string option \<Rightarrow> world \<Rightarrow> unit completion \<times> world" where
  "recording_run k url opts bucketName w = (Returns (), called (Lighthouse url (device opts)) w)"

definition defect :: error where
  "defect = JsError ''TypeError'' ''x is not a function''"

definition failing_run ::
  "nat \<Rightarrow> string \<Rightarrow> opts2 \<Rightarrow> string option \<Rightarrow> world \<Rightarrow> unit completion \<times> world" where
  "failing_run k url opts bucketName w =
     (if url = ''a'' then (Throws defect, called (Lighthouse url (device opts)) w)
      else (Returns (), called (Lighthouse url (device opts)) w))"

section \<open>Properties of the key derivation\<close>

lemma lt16_cases:
  "d < (16::nat) \<Longrightarrow> d = 0 \<or> d = 1 \<or> d = 2 \<or> d = 3 \<or> d = 4 \<or> d = 5 \<or> d = 6 \<or> d = 7
    \<or> d = 8 \<or> d = 9 \<or> d = 10 \<or> d = 11 \<or> d = 12 \<or> d = 13 \<or> d = 14 \<or> d = 15"
  by presburger

lemma hex_val_digit:
  assumes "d < 16"
  shows "hex_val (digit_char d) = Some d"
  using lt16_cases [OF assms]
  by (elim disjE) (simp_all add: hex_val_def digit_char_def digits36_def)

lemma parse_hex_append:
  "parse_hex acc (xs @ ys) =
     (case parse_hex acc xs of None \<Rightarrow> None | Some a \<Rightarrow> parse_hex a ys)"
  by (induction xs arbitrary: acc) (auto split: option.splits)

lemma parse_hex_digits: "parse_hex 0 (digits_radix 16 n) = Some n"
proof (induction "16::nat" n rule: digits_radix.induct)
  case (1 n)
  show ?case
  proof (cases "16 \<le> n")
    case True
    with 1 show ?thesis
      by (subst digits_radix.simps) (simp add: parse_hex_append hex_val_digit)
  next
    case False
    then show ?thesis
      by (subst digits_radix.simps) (simp add: hex_val_digit)
  qed
qed

lemma parse_hex_zeros: "parse_hex 0 (replicate k (CHR ''0'') @ xs) = parse_hex 0 xs"
  by (induction k) (simp_all add: hex_val_def)

lemma digits_radix_nonempty: "digits_radix b n \<noteq> []"
  by (subst digits_radix.simps) simp

text \<open>Reading the hexadecimal digest back as a \<open>BigInt\<close> gives the digest's value.\<close>

lemma BigInt_hex_digest: "BigInt_hex (''0x'' @ digest_hex d) = Inr (unat d)"
  by (simp add: BigInt_hex_def digest_hex_def padStart_def parse_hex_zeros parse_hex_digits
      digits_radix_nonempty)

lemma digits36_length: "length digits36 = 36"
  by (simp add: digits36_def)

lemma digit_char_alphabet: "d < 36 \<Longrightarrow> digit_char d \<in> set digits36"
  unfolding digit_char_def by (rule nth_mem) (simp add: digits36_length)

lemma digits_radix_alphabet: "set (digits_radix 36 n) \<subseteq> set digits36"
proof (induction "36::nat" n rule: digits_radix.induct)
  case (1 n)
  show ?case
  proof (cases "36 \<le> n")
    case True
    with 1 show ?thesis
      by (subst digits_radix.simps) (simp add: digit_char_alphabet)
  next
    case False
    then show ?thesis
      by (subst digits_radix.simps) (simp add: digit_char_alphabet)
  qed
qed

lemma zero_in_alphabet: "CHR ''0'' \<in> set digits36"
  by (simp add: digits36_def)

lemma padStart_length: "length (padStart n c s) = max n (length s)"
  by (simp add: padStart_def)

lemma key_alphabet:
  "set (padStart 12 (CHR ''0'') (slice0 12 (digits_radix 36 n))) \<subseteq> set digits36"
proof -
  have "set (take 12 (digits_radix 36 n)) \<subseteq> set digits36"
    using set_take_subset digits_radix_alphabet by (rule subset_trans)
  then show ?thesis
    using zero_in_alphabet by (auto simp: padStart_def slice0_def)
qed

lemma hashStringTo12Digits_eq:
  "hashStringTo12Digits sha256 u =
     Inr (padStart 12 (CHR ''0'') (slice0 12 (digits_radix 36 (unat (sha256 u)))))"
  unfolding hashStringTo12Digits_def Let_def BigInt_hex_digest
  by (simp add: BigInt_toString_def)

lemma key_length:
  "length (padStart 12 (CHR ''0'') (slice0 12 (digits_radix 36 n))) = 12"
  by (simp add: padStart_length slice0_def)

lemma hashStringTo12Digits_urlKey:
  "hashStringTo12Digits (p_sha256 P) url = Inr (urlKey_of P url)"
  by (simp add: hashStringTo12Digits_eq urlKey_of_def)

text \<open>
  C7. For every string and every digest function, \<open>hashStringTo12Digits\<close> returns (it has
  no failure mode) a key of exactly 12 characters, all from the alphabet \<open>0-9a-z\<close>; the key
  is the base-36 rendering of the digest read as an integer, cut to its first 12 characters
  and padded on the left with \<open>0\<close>. Being a function of the input alone, it gives the same
  key on every call.
\<close>

theorem hashStringTo12Digits_total_key:
  "hashStringTo12Digits sha256 u =
     Inr (padStart 12 (CHR ''0'') (slice0 12 (digits_radix 36 (unat (sha256 u)))))
   \<and> length (padStart 12 (CHR ''0'') (slice0 12 (digits_radix 36 (unat (sha256 u))))) = 12
   \<and> set (padStart 12 (CHR ''0'') (slice0 12 (digits_radix 36 (unat (sha256 u)))))
       \<subseteq> set ''0123456789abcdefghijklmnopqrstuvwxyz''"
proof -
  have "set (padStart 12 (CHR ''0'') (slice0 12 (digits_radix 36 (unat (sha256 u)))))
       \<subseteq> set ''0123456789abcdefghijklmnopqrstuvwxyz''"
    using key_alphabet [of "unat (sha256 u)"] by (simp only: digits36_def)
  then show ?thesis
    using hashStringTo12Digits_eq [of sha256 u] key_length [of "unat (sha256 u)"] by blast
qed

section \<open>Reports and rows\<close>

lemma falsy_nullish: "nullish v \<Longrightarrow> falsy v"
  by (auto simp: nullish_def falsy_def)

lemma get_prop_not_nullish: "\<not> nullish v \<Longrightarrow> get_prop v k = Inr (opt_prop v k)"
  by (cases v) (simp_all add: nullish_def get_prop_def opt_prop_def)

lemma opt_prop_nullish: "nullish v \<Longrightarrow> opt_prop v k = JUndefined"
  by (auto simp: nullish_def opt_prop_def)

lemma check_structure_ok:
  "check_structure result = Inr () \<longleftrightarrow>
     \<not> falsy (opt_prop result ''lhr'') \<and> \<not> falsy (report_field result ''categories'')"
proof (cases "nullish result")
  case True
  then show ?thesis
    by (auto simp: check_structure_def nullish_def get_prop_def opt_prop_def falsy_def)
next
  case False
  then have r: "get_prop result ''lhr'' = Inr (opt_prop result ''lhr'')"
    by (rule get_prop_not_nullish)
  show ?thesis
  proof (cases "falsy (opt_prop result ''lhr'')")
    case True
    then show ?thesis by (simp add: check_structure_def r)
  next
    case False
    then have "\<not> nullish (opt_prop result ''lhr'')" using falsy_nullish by blast
    then have "get_prop (opt_prop result ''lhr'') ''categories'' = Inr (report_field result ''categories'')"
      by (simp add: get_prop_not_nullish report_field_def)
    with False show ?thesis by (simp add: check_structure_def r)
  qed
qed

lemma check_structure_invalid:
  "check_structure result = Inl invalid_structure \<longleftrightarrow>
     \<not> nullish result \<and>
     (falsy (opt_prop result ''lhr'') \<or> falsy (report_field result ''categories''))"
proof (cases "nullish result")
  case True
  then show ?thesis
    by (auto simp: check_structure_def nullish_def get_prop_def invalid_structure_def)
next
  case False
  then have r: "get_prop result ''lhr'' = Inr (opt_prop result ''lhr'')"
    by (rule get_prop_not_nullish)
  show ?thesis
  proof (cases "falsy (opt_prop result ''lhr'')")
    case True
    with False show ?thesis by (simp add: check_structure_def r)
  next
    case f: False
    then have "\<not> nullish (opt_prop result ''lhr'')" using falsy_nullish by blast
    then have "get_prop (opt_prop result ''lhr'') ''categories'' = Inr (report_field result ''categories'')"
      by (simp add: get_prop_not_nullish report_field_def)
    with False f show ?thesis by (simp add: check_structure_def r)
  qed
qed

lemma valid_not_nullish:
  assumes "check_structure result = Inr ()"
  shows "\<not> nullish result" and "\<not> nullish (opt_prop result ''lhr'')"
    and "\<not> nullish (report_field result ''categories'')"
proof -
  from assms have a: "\<not> falsy (opt_prop result ''lhr'')"
    and b: "\<not> falsy (report_field result ''categories'')"
    by (simp_all add: check_structure_ok)
  from a show "\<not> nullish (opt_prop result ''lhr'')" using falsy_nullish by blast
  from b show "\<not> nullish (report_field result ''categories'')" using falsy_nullish by blast
  from a show "\<not> nullish result"
    by (auto simp: nullish_def opt_prop_def falsy_def)
qed

lemma valid_field:
  assumes "check_structure result = Inr ()"
  shows "path_get result [''lhr'', k] = Inr (report_field result k)"
  using valid_not_nullish [OF assms]
  by (simp add: get_prop_not_nullish report_field_def)

lemma score_column_coalesce:
  "coalesce (opt_prop c ''score'') (JStr ''N/A'') =
     (if nullish c \<or> nullish (opt_prop c ''score'') then JStr ''N/A'' else opt_prop c ''score'')"
  by (auto simp: coalesce_def opt_prop_nullish nullish_def)

lemma valid_score:
  assumes "check_structure result = Inr ()"
  shows "score_or_NA result k = Inr (score_column result k)"
  using valid_not_nullish [OF assms]
  by (simp add: score_or_NA_def get_prop_not_nullish report_field_def category_of_def
      score_column_def score_column_coalesce)

lemma score_column_not_nullish: "\<not> nullish (score_column result k)"
  by (auto simp: score_column_def nullish_def)

lemma coalesce_score_column:
  "coalesce (score_column result k) (JStr ''N/A'') = score_column result k"
  using score_column_not_nullish [of result k] by (simp add: coalesce_def)

lemma valid_sheet_data:
  assumes "check_structure result = Inr ()"
  shows "sheet_data result dev date urlKey extra = Inr (data_of result dev date urlKey extra)"
  by (simp add: sheet_data_def valid_field [OF assms] valid_score [OF assms] category_names_def
      data_of_def del: path_get.simps)

lemma values1_data:
  "values1 (data_of result dev date urlKey []) = Inr (record_columns result date dev urlKey)"
  by (simp add: values1_def data_of_def record_columns_def get_prop_def score_or_NA_def
      opt_prop_def coalesce_score_column)

lemma values2_data:
  "values2 (data_of result dev date urlKey [(''link'', JStr link)]) =
     Inr (record_columns result date dev urlKey @ [JStr link])"
  by (simp add: values2_def data_of_def record_columns_def get_prop_def score_or_NA_def
      opt_prop_def coalesce_score_column)

section \<open>The effect of the external calls on the world\<close>

lemma logger_info_simps [simp]:
  "calls (logger_info m w) = calls w"
  "files (logger_info m w) = files w"
  "sheet (logger_info m w) = sheet w"
  "objects (logger_info m w) = objects w"
  "logs (logger_info m w) = logs w @ [(LInfo, m)]"
  by (simp_all add: logger_info_def)

lemma logger_error_simps [simp]:
  "calls (logger_error m w) = calls w"
  "files (logger_error m w) = files w"
  "sheet (logger_error m w) = sheet w"
  "objects (logger_error m w) = objects w"
  "logs (logger_error m w) = logs w @ [(LError, m)]"
  by (simp_all add: logger_error_def)

lemma called_simps [simp]:
  "calls (called c w) = calls w @ [c]"
  "files (called c w) = files w"
  "sheet (called c w) = sheet w"
  "objects (called c w) = objects w"
  "logs (called c w) = logs w"
  by (simp_all add: called_def)

lemma appended_rows_append [simp]:
  "appended_rows (xs @ ys) = appended_rows xs @ appended_rows ys"
  by (induction xs rule: appended_rows.induct) simp_all

lemma ensureDirectoryExists_simps [simp]:
  "calls (ensureDirectoryExists out d w) = calls w @ [Mkdir d]"
  "files (ensureDirectoryExists out d w) = files w"
  "sheet (ensureDirectoryExists out d w) = sheet w"
  "objects (ensureDirectoryExists out d w) = objects w"
  by (simp_all add: ensureDirectoryExists_def Let_def split: option.splits)

lemma fs_writeFile_simps [simp]:
  "calls (snd (fs_writeFile out co p d w)) = calls w @ [WriteFile p]"
  "sheet (snd (fs_writeFile out co p d w)) = sheet w"
  "objects (snd (fs_writeFile out co p d w)) = objects w"
  "logs (snd (fs_writeFile out co p d w)) = logs w"
  by (simp_all add: fs_writeFile_def Let_def split: option.splits jsval.splits)

lemma fs_readFile_simps [simp]:
  "calls (snd (fs_readFile out p w)) = calls w @ [ReadFile p]"
  "sheet (snd (fs_readFile out p w)) = sheet w"
  "objects (snd (fs_readFile out p w)) = objects w"
  "logs (snd (fs_readFile out p w)) = logs w"
  "files (snd (fs_readFile out p w)) = files w"
  by (simp_all add: fs_readFile_def Let_def split: option.splits)

lemma fs_readFile_world: "fs_readFile out p w = (r, w') \<Longrightarrow> w' = called (ReadFile p) w"
  by (auto simp: fs_readFile_def Let_def split: option.splits)

lemma fs_unlink_simps [simp]:
  "calls (snd (fs_unlink out p w)) = calls w @ [Unlink p]"
  "sheet (snd (fs_unlink out p w)) = sheet w"
  "objects (snd (fs_unlink out p w)) = objects w"
  "logs (snd (fs_unlink out p w)) = logs w"
  by (simp_all add: fs_unlink_def Let_def split: option.splits)

lemma runLighthouse1_simps [simp]:
  "appended_rows (calls (snd (runLighthouse1 env url opts w))) = appended_rows (calls w)"
  "filter is_S3Send (calls (snd (runLighthouse1 env url opts w))) = filter is_S3Send (calls w)"
  "sheet (snd (runLighthouse1 env url opts w)) = sheet w"
  "objects (snd (runLighthouse1 env url opts w)) = objects w"
  "files (snd (runLighthouse1 env url opts w)) = files w"
  by (simp_all add: runLighthouse1_def Let_def split: option.splits sum.splits)

lemma exec_writes_simps [simp]:
  "calls (exec_writes env i w) = calls w"
  "sheet (exec_writes env i w) = sheet w"
  "objects (exec_writes env i w) = objects w"
  "logs (exec_writes env i w) = logs w"
  by (simp_all add: exec_writes_def Let_def split: option.splits)

lemma log_stderr_simps [simp]:
  "calls (log_stderr env url w) = calls w"
  "sheet (log_stderr env url w) = sheet w"
  "objects (log_stderr env url w) = objects w"
  "files (log_stderr env url w) = files w"
  by (simp_all add: log_stderr_def)

lemma runLighthouse2_simps [simp]:
  "appended_rows (calls (snd (runLighthouse2 P env url dev sz i w))) = appended_rows (calls w)"
  "filter is_S3Send (calls (snd (runLighthouse2 P env url dev sz i w))) = filter is_S3Send (calls w)"
  "sheet (snd (runLighthouse2 P env url dev sz i w)) = sheet w"
  "objects (snd (runLighthouse2 P env url dev sz i w)) = objects w"
  by (auto simp: runLighthouse2_def Let_def split: option.splits sum.splits prod.splits
      dest!: fs_readFile_world)

lemma saveToGoogleSheets_rows:
  "appended_rows (calls (snd (saveToGoogleSheets vals env data w))) =
     appended_rows (calls w) @
     (case auth_out env of
        Some e \<Rightarrow> []
      | None \<Rightarrow> (case vals data of Inl e \<Rightarrow> [] | Inr row \<Rightarrow> [row]))"
  by (simp add: saveToGoogleSheets_def Let_def split: option.splits sum.splits)

lemma saveToGoogleSheets_sheet:
  "sheet (snd (saveToGoogleSheets vals env data w)) =
     sheet w @
     (case auth_out env of
        Some e \<Rightarrow> []
      | None \<Rightarrow>
          (case vals data of
             Inl e \<Rightarrow> []
           | Inr row \<Rightarrow> (case append_out env of None \<Rightarrow> [row] | Some e \<Rightarrow> [])))"
  by (simp add: saveToGoogleSheets_def Let_def split: option.splits sum.splits)

lemma saveToGoogleSheets_S3 [simp]:
  "filter is_S3Send (calls (snd (saveToGoogleSheets vals env data w))) =
     filter is_S3Send (calls w)"
  "objects (snd (saveToGoogleSheets vals env data w)) = objects w"
  "files (snd (saveToGoogleSheets vals env data w)) = files w"
  by (simp_all add: saveToGoogleSheets_def Let_def split: option.splits sum.splits)

lemma uploadToS3_simps [simp]:
  "appended_rows (calls (snd (uploadToS3 P env fp b k w))) = appended_rows (calls w)"
  "sheet (snd (uploadToS3 P env fp b k w)) = sheet w"
  "files (snd (uploadToS3 P env fp b k w)) = files w"
  by (auto simp: uploadToS3_def Let_def split: option.splits sum.splits prod.splits
      dest!: fs_readFile_world)

lemma fs_writeFile_fst:
  "fst (fs_writeFile (write_out env) (write_chunks_out env) p d w) = Inr u \<longleftrightarrow> writes env d"
  by (auto simp: fs_writeFile_def writes_def Let_def split: option.splits jsval.splits)

lemma fs_writeFile_writes:
  "writes env d \<Longrightarrow> fst (fs_writeFile (write_out env) (write_chunks_out env) p d w) = Inr ()"
  by (simp add: fs_writeFile_fst)

lemma fs_writeFile_fails:
  assumes "\<not> writes env d"
  shows "\<exists>e. fst (fs_writeFile (write_out env) (write_chunks_out env) p d w) = Inl e"
proof (cases "fst (fs_writeFile (write_out env) (write_chunks_out env) p d w)")
  case (Inl e)
  then show ?thesis by blast
next
  case (Inr u)
  with assms show ?thesis by (simp add: fs_writeFile_fst)
qed

lemma fs_writeFile_ok [simp]:
  "fs_writeFile None co p (JStr c) w =
     (Inr (), (called (WriteFile p) w)\<lparr>files := (files w)(norm_path p \<mapsto> c)\<rparr>)"
  by (simp add: fs_writeFile_def Let_def)

section \<open>The rows that one task appends\<close>

lemma runAndSave1_try_rows:
  "appended_rows (calls (snd (runAndSave1_try P env result opts b t key fn fp w))) =
     appended_rows (calls w) @
     (if reaches_append1 env result then [record_columns result t (formFactor opts) key] else [])"
proof (cases "get_prop result ''report''")
  case (Inl e)
  then show ?thesis
    by (simp add: runAndSave1_try_def reaches_append1_def)
next
  case (Inr report)
  show ?thesis
  proof (cases "writes env report")
    case False
    from fs_writeFile_fails [OF this, of fp w] obtain e
      where "fst (fs_writeFile (write_out env) (write_chunks_out env) fp report w) = Inl e"
      by blast
    with Inr False show ?thesis
      by (simp add: runAndSave1_try_def case_prod_beta reaches_append1_def)
  next
    case True
    note wr = fs_writeFile_writes [OF True, of fp w]
    show ?thesis
    proof (cases "check_structure result")
      case (Inl e)
      with Inr wr show ?thesis
        by (simp add: runAndSave1_try_def Let_def case_prod_beta reaches_append1_def)
    next
      case r: (Inr u)
      then have v: "check_structure result = Inr ()" by simp
      from Inr True wr show ?thesis
        by (simp add: runAndSave1_try_def Let_def case_prod_beta reaches_append1_def v
            valid_sheet_data [OF v] saveToGoogleSheets1_def saveToGoogleSheets_rows values1_data
            split: sum.splits option.splits)
    qed
  qed
qed

lemma runLighthouse1_fst: "fst (runLighthouse1 env url opts w) = engine_result1 env"
  by (simp add: runLighthouse1_def engine_result1_def Let_def split: option.splits)

lemma runAndSave1_finally_simps [simp]:
  "calls (runAndSave1_finally env fp w) = calls w @ [Unlink fp]"
  "sheet (runAndSave1_finally env fp w) = sheet w"
  "objects (runAndSave1_finally env fp w) = objects w"
  by (simp_all add: runAndSave1_finally_def case_prod_beta split: sum.splits)

lemma runAndSave1_rows:
  "appended_rows (calls (snd (runAndSave1 P env url opts b w))) =
     appended_rows (calls w) @
     (case engine_result1 env of
        Inl e \<Rightarrow> []
      | Inr result \<Rightarrow>
          (if reaches_append1 env result
           then [record_columns result (toISOString (t_start env)) (formFactor opts)
                   (urlKey_of P url)]
           else []))"
  by (simp add: runAndSave1_def hashStringTo12Digits_urlKey Let_def case_prod_beta
      runLighthouse1_fst runAndSave1_try_rows
      split: sum.splits)


lemma runAndSave2_try_rows:
  "appended_rows (calls (snd (runAndSave2_try env result opts t key link fp w))) =
     appended_rows (calls w) @
     (if check_structure result = Inr () \<and> auth_out env = None
      then [record_columns result t (device opts) key @ [JStr link]] else [])"
proof (cases "check_structure result")
  case (Inl e)
  then show ?thesis
    by (simp add: runAndSave2_try_def Let_def)
next
  case (Inr u)
  then have v: "check_structure result = Inr ()" by simp
  show ?thesis
    by (simp add: runAndSave2_try_def Let_def v valid_sheet_data [OF v] saveToGoogleSheets2_def
        saveToGoogleSheets_rows values2_data split: option.splits)
qed

lemma runAndSave2_try_S3 [simp]:
  "filter is_S3Send (calls (snd (runAndSave2_try env result opts t key link fp w))) =
     filter is_S3Send (calls w)"
  "objects (snd (runAndSave2_try env result opts t key link fp w)) = objects w"
  "files (snd (runAndSave2_try env result opts t key link fp w)) = files w"
  by (simp_all add: runAndSave2_try_def Let_def saveToGoogleSheets2_def split: sum.splits)

lemma runLighthouse2_result:
  "fst (runLighthouse2 P env url dev sz i w) = Returns result \<Longrightarrow>
     \<exists>j lhr. p_JSON_parse P j = Inr lhr \<and> result = JObj [(''lhr'', lhr)]"
  by (auto simp: runLighthouse2_def Let_def case_prod_beta split: option.splits sum.splits)

lemma runAndSave2_rows:
  "appended_rows (calls (snd (runAndSave2 P env url opts b w))) = appended_rows (calls w) \<or>
   (\<exists>j lhr. p_JSON_parse P j = Inr lhr \<and>
      appended_rows (calls (snd (runAndSave2 P env url opts b w))) =
        appended_rows (calls w) @
        [record_columns (JObj [(''lhr'', lhr)]) (toISOString (t_start env)) (device opts)
           (urlKey_of P url) @ [JStr (link2 P env url opts)]])"
proof (cases "fst (runLighthouse2 P env url (device opts) (size_opt opts) (t_start env)
    (ensureDirectoryExists (mkdir_out env) ''outputs''
      (logger_info (''Processing started at '' @ toISOString (t_start env) @ '' for URL: '' @ url) w)))")
  case (Returns result)
  from runLighthouse2_result [OF this] obtain j lhr
    where j: "p_JSON_parse P j = Inr lhr" and r: "result = JObj [(''lhr'', lhr)]" by blast
  show ?thesis
  proof (cases "check_structure result = Inr () \<and> auth_out env = None")
    case True
    with Returns j r show ?thesis
      by (intro disjI2 exI [of _ j] exI [of _ lhr])
        (simp add: runAndSave2_def hashStringTo12Digits_urlKey Let_def case_prod_beta
          runAndSave2_try_rows link2_def split: sum.splits)
  next
    case False
    with Returns show ?thesis
      by (intro disjI1)
        (auto simp add: runAndSave2_def hashStringTo12Digits_urlKey Let_def case_prod_beta
          runAndSave2_try_rows split: sum.splits)
  qed
next
  case (Throws e)
  then show ?thesis
    by (simp add: runAndSave2_def hashStringTo12Digits_urlKey Let_def case_prod_beta)
next
  case Pending
  then show ?thesis
    by (simp add: runAndSave2_def hashStringTo12Digits_urlKey Let_def case_prod_beta)
qed


lemma record_columns_length: "length (record_columns r d v k) = 10"
  by (simp add: record_columns_def)

section \<open>Sample evaluations\<close>

lemma replicate_unfold: "replicate n x = (if n = 0 then [] else x # replicate (n - 1) x)"
  by (cases n) simp_all

lemmas str_eval = zero_pad_def padStart_def slice0_def digits_radix.simps digit_char_def
  digits36_def replicate_unfold dec_def

lemmas civil_eval = civil_from_days_def civil_of_doe_def civil_of_yoe_def civil_of_doy_def
  civil_of_mp_def

lemma iso_start: "toISOString 1714557600000 = ''2024-05-01T10:00:00.000Z''"
  by (simp add: toISOString_def iso_year_def iso_time_of_day_def civil_eval str_eval)

lemma iso_late: "toISOString 1714607999999 = ''2024-05-01T23:59:59.999Z''"
  by (simp add: toISOString_def iso_year_def iso_time_of_day_def civil_eval str_eval)

lemma ymd_same_day: "format_yyyy_MM_dd 0 1714557600000 = ''2024-05-01''"
  by (simp add: format_yyyy_MM_dd_def civil_eval str_eval)

lemma ymd_archive: "format_yyyy_MM_dd 0 1714557601500 = ''2024-05-01''"
  by (simp add: format_yyyy_MM_dd_def civil_eval str_eval)

lemma ymd_next_day: "format_yyyy_MM_dd 0 1714608000000 = ''2024-05-02''"
  by (simp add: format_yyyy_MM_dd_def civil_eval str_eval)

lemma dec_start: "dec 1714557600000 = ''1714557600000''"
  by (simp add: str_eval)

lemma key_sample: "urlKey_of sample_platform u = ''00000000001r''"
  by (simp add: urlKey_of_def sample_platform_def str_eval)

lemma sample_platform_simps [simp]:
  "p_utc_offset sample_platform t = 0"
  "TARGET_URL sample_platform = Some ''a,b''"
  "S3_BUCKET_NAME sample_platform = Some ''reports''"
  "HOST sample_platform = Some ''https://cdn.example.com''"
  "p_JSON_parse sample_platform sample_json = Inr sample_lhr"
  by (simp_all add: sample_platform_def)

lemma env_ok_simps [simp]:
  "t_start env_ok = 1714557600000" "t_archive env_ok = 1714557601500"
  "t_end env_ok = 1714557602000" "mkdir_out env_ok = None" "launch_out env_ok = None"
  "engine_out env_ok = Inr sample_result" "kill_out env_ok = None" "exec_error env_ok = None"
  "exec_stderr env_ok = []" "exec_html env_ok = Some ''<html></html>''"
  "exec_json env_ok = Some sample_json" "read_json_out env_ok = None" "write_out env_ok = None"
  "write_chunks_out env_ok d = (None, [])"
  "auth_out env_ok = None" "append_out env_ok = None" "read_out env_ok = None"
  "send_out env_ok = None" "unlink_out env_ok = None"
  by (simp_all add: env_ok_def)

lemma w0_simps [simp]:
  "files w0 = Map.empty" "sheet w0 = []" "objects w0 = []" "logs w0 = []" "calls w0 = []"
  by (simp_all add: w0_def)

lemma sample_result_valid: "check_structure sample_result = Inr ()"
  by (simp add: check_structure_ok sample_result_def sample_lhr_def opt_prop_def falsy_def
      report_field_def)

lemma sample_result_report: "get_prop sample_result ''report'' = Inr (JStr ''<html></html>'')"
  by (simp add: get_prop_def sample_result_def)

lemma sample_reaches: "reaches_append1 env_ok sample_result"
  by (simp add: reaches_append1_def writes_def sample_result_valid sample_result_report)

lemma sample_columns:
  "record_columns sample_result date dev key =
     [JStr date, JStr dev, JStr key, JStr ''https://example1.com/'', JNum (49 / 50), JNum 1,
      JNum (3 / 4), JNum 0, JStr ''N/A'', JStr ''Mozilla/5.0'']"
  by (simp add: record_columns_def report_field_def score_column_def category_of_def
      sample_result_def sample_lhr_def opt_prop_def nullish_def)

lemma sample_rows1:
  "appended_rows (calls (snd (runAndSave1 sample_platform env_ok ''a'' desktopOpts1 (Some ''reports'') w0))) =
     [[JStr ''2024-05-01T10:00:00.000Z'', JStr ''desktop'', JStr ''00000000001r'',
       JStr ''https://example1.com/'', JNum (49 / 50), JNum 1, JNum (3 / 4), JNum 0,
       JStr ''N/A'', JStr ''Mozilla/5.0'']]"
  by (simp add: runAndSave1_rows engine_result1_def sample_reaches sample_columns iso_start
      key_sample desktopOpts1_def)

lemma category_column:
  assumes "k \<in> set category_names"
  shows "map_of (category_columns (record_columns result date dev key @ extra)) k =
           Some (score_column result k)"
  using assms
  by (auto simp: category_columns_def category_names_def record_columns_def)

section \<open>The claims about the row\<close>

text \<open>
  C5 (as amended). Every row that a task passes to the append is the ordered list of the ten
  values date, device, urlKey, finalUrl, performance, accessibility, bestPractices, seo, pwa,
  userAgent in the first variant, and these ten followed by the artifact link, eleven values,
  in the second variant. A task passes at most one row.
\<close>

theorem appended_row_columns:
  "(appended_rows (calls (snd (runAndSave1 P env url o1 b w))) = appended_rows (calls w) \<or>
    (\<exists>result. engine_out env = Inr result \<and>
       appended_rows (calls (snd (runAndSave1 P env url o1 b w))) =
         appended_rows (calls w) @
         [record_columns result (toISOString (t_start env)) (formFactor o1) (urlKey_of P url)]))
   \<and> (appended_rows (calls (snd (runAndSave2 P env url o2 b w))) = appended_rows (calls w) \<or>
    (\<exists>j lhr. p_JSON_parse P j = Inr lhr \<and>
       appended_rows (calls (snd (runAndSave2 P env url o2 b w))) =
         appended_rows (calls w) @
         [record_columns (JObj [(''lhr'', lhr)]) (toISOString (t_start env)) (device o2)
            (urlKey_of P url) @ [JStr (link2 P env url o2)]]))
   \<and> length (record_columns r date dev key) = 10
   \<and> length (record_columns r date dev key @ [JStr link]) = 11"
proof -
  have "appended_rows (calls (snd (runAndSave1 P env url o1 b w))) = appended_rows (calls w) \<or>
    (\<exists>result. engine_out env = Inr result \<and>
       appended_rows (calls (snd (runAndSave1 P env url o1 b w))) =
         appended_rows (calls w) @
         [record_columns result (toISOString (t_start env)) (formFactor o1) (urlKey_of P url)])"
    by (auto simp: runAndSave1_rows engine_result1_def split: sum.splits option.splits)
  then show ?thesis
    using runAndSave2_rows [of P env url o2 b w] by (simp add: record_columns_length)
qed

theorem appended_row_columns_witness:
  "appended_rows (calls (snd (runAndSave1 sample_platform env_ok ''a'' desktopOpts1 (Some ''reports'') w0))) =
     [[JStr ''2024-05-01T10:00:00.000Z'', JStr ''desktop'', JStr ''00000000001r'',
       JStr ''https://example1.com/'', JNum (49 / 50), JNum 1, JNum (3 / 4), JNum 0,
       JStr ''N/A'', JStr ''Mozilla/5.0'']]"
  using appended_row_columns [of sample_platform env_ok "''a''" desktopOpts1 "Some ''reports''" w0]
  by (simp add: sample_rows1)

text \<open>
  The claim as stated fails on the first variant: the row of a successful task has ten
  values and no artifact link.
\<close>

theorem row_of_eleven_counterexample:
  "map length
     (appended_rows (calls (snd (runAndSave1 sample_platform env_ok ''a'' desktopOpts1 (Some ''reports'') w0))))
   = [10]"
  by (simp add: sample_rows1)

text \<open>
  C9. For a report that has a categories mapping and for each of the five categories: when the
  category is absent, building the record does not fail, and the row that
  \<open>saveToGoogleSheets\<close> builds from it (in either variant) holds the sentinel in the column
  of that category.
\<close>

theorem absent_category_is_NA:
  assumes "check_structure result = Inr ()"
    and "k \<in> set category_names"
    and "nullish (category_of result k)"
  shows "(\<exists>data row. sheet_data result dev date key [] = Inr data \<and> values1 data = Inr row
           \<and> map_of (category_columns row) k = Some (JStr ''N/A''))
       \<and> (\<exists>data row. sheet_data result dev date key [(''link'', JStr link)] = Inr data
           \<and> values2 data = Inr row
           \<and> map_of (category_columns row) k = Some (JStr ''N/A''))"
proof -
  have na: "score_column result k = JStr ''N/A''"
    using assms(3) by (simp add: score_column_def)
  have "\<exists>data row. sheet_data result dev date key [] = Inr data \<and> values1 data = Inr row
           \<and> map_of (category_columns row) k = Some (JStr ''N/A'')"
    using category_column [OF assms(2), of result date dev key "[]"]
    by (simp add: valid_sheet_data [OF assms(1)] values1_data na)
  moreover have "\<exists>data row. sheet_data result dev date key [(''link'', JStr link)] = Inr data
           \<and> values2 data = Inr row
           \<and> map_of (category_columns row) k = Some (JStr ''N/A'')"
    using category_column [OF assms(2), of result date dev key "[JStr link]"]
    by (simp add: valid_sheet_data [OF assms(1)] values2_data na)
  ultimately show ?thesis by blast
qed

lemma sample_pwa_absent: "nullish (category_of sample_result ''pwa'')"
  by (simp add: category_of_def report_field_def sample_result_def sample_lhr_def opt_prop_def
      nullish_def)

lemma pwa_category: "''pwa'' \<in> set category_names"
  by (simp add: category_names_def)

theorem absent_category_is_NA_witness:
  "check_structure sample_result = Inr () \<and> ''pwa'' \<in> set category_names
   \<and> nullish (category_of sample_result ''pwa'')
   \<and> (\<exists>data row. sheet_data sample_result ''mobile'' ''2024-05-01T10:00:00.000Z''
                     ''00000000001r'' [] = Inr data
          \<and> values1 data = Inr row
          \<and> map_of (category_columns row) ''pwa'' = Some (JStr ''N/A''))"
  using absent_category_is_NA [OF sample_result_valid pwa_category sample_pwa_absent,
      of "''mobile''" "''2024-05-01T10:00:00.000Z''" "''00000000001r''"]
    sample_result_valid pwa_category sample_pwa_absent
  by blast

text \<open>
  C10. For a report that has a categories mapping, the column of each category holds the score
  of the category unless the category or its score is \<open>undefined\<close> or \<open>null\<close>, and only
  then the sentinel: a score that is the number 0 is written as 0.
\<close>

theorem zero_score_is_kept:
  assumes "check_structure result = Inr ()"
    and "k \<in> set category_names"
  shows "(\<exists>data row. sheet_data result dev date key [] = Inr data \<and> values1 data = Inr row
           \<and> map_of (category_columns row) k =
               Some (if nullish (category_of result k)
                        \<or> nullish (opt_prop (category_of result k) ''score'')
                     then JStr ''N/A'' else opt_prop (category_of result k) ''score'')
           \<and> (opt_prop (category_of result k) ''score'' = JNum 0
                \<longrightarrow> map_of (category_columns row) k = Some (JNum 0)))
       \<and> (\<exists>data row. sheet_data result dev date key [(''link'', JStr link)] = Inr data
           \<and> values2 data = Inr row
           \<and> map_of (category_columns row) k =
               Some (if nullish (category_of result k)
                        \<or> nullish (opt_prop (category_of result k) ''score'')
                     then JStr ''N/A'' else opt_prop (category_of result k) ''score'')
           \<and> (opt_prop (category_of result k) ''score'' = JNum 0
                \<longrightarrow> map_of (category_columns row) k = Some (JNum 0)))"
proof -
  have zero: "opt_prop (category_of result k) ''score'' = JNum 0 \<Longrightarrow>
      score_column result k = JNum 0"
    by (auto simp: score_column_def nullish_def opt_prop_def split: jsval.splits)
  have "\<exists>data row. sheet_data result dev date key [] = Inr data \<and> values1 data = Inr row
           \<and> map_of (category_columns row) k =
               Some (if nullish (category_of result k)
                        \<or> nullish (opt_prop (category_of result k) ''score'')
                     then JStr ''N/A'' else opt_prop (category_of result k) ''score'')
           \<and> (opt_prop (category_of result k) ''score'' = JNum 0
                \<longrightarrow> map_of (category_columns row) k = Some (JNum 0))"
    using category_column [OF assms(2), of result date dev key "[]"] zero
    by (simp add: valid_sheet_data [OF assms(1)] values1_data) (simp add: score_column_def)
  moreover have "\<exists>data row. sheet_data result dev date key [(''link'', JStr link)] = Inr data
           \<and> values2 data = Inr row
           \<and> map_of (category_columns row) k =
               Some (if nullish (category_of result k)
                        \<or> nullish (opt_prop (category_of result k) ''score'')
                     then JStr ''N/A'' else opt_prop (category_of result k) ''score'')
           \<and> (opt_prop (category_of result k) ''score'' = JNum 0
                \<longrightarrow> map_of (category_columns row) k = Some (JNum 0))"
    using category_column [OF assms(2), of result date dev key "[JStr link]"] zero
    by (simp add: valid_sheet_data [OF assms(1)] values2_data) (simp add: score_column_def)
  ultimately show ?thesis by blast
qed

lemma sample_seo_zero: "opt_prop (category_of sample_result ''seo'') ''score'' = JNum 0"
  by (simp add: category_of_def report_field_def sample_result_def sample_lhr_def opt_prop_def)

lemma seo_category: "''seo'' \<in> set category_names"
  by (simp add: category_names_def)

theorem zero_score_is_kept_witness:
  "check_structure sample_result = Inr () \<and> ''seo'' \<in> set category_names
   \<and> opt_prop (category_of sample_result ''seo'') ''score'' = JNum 0
   \<and> (\<exists>data row. sheet_data sample_result ''mobile'' ''2024-05-01T10:00:00.000Z''
                     ''00000000001r'' [] = Inr data
          \<and> values1 data = Inr row
          \<and> map_of (category_columns row) ''seo'' = Some (JNum 0))"
proof -
  from zero_score_is_kept [OF sample_result_valid seo_category,
      of "''mobile''" "''2024-05-01T10:00:00.000Z''" "''00000000001r''"]
  obtain data row
    where d: "sheet_data sample_result ''mobile'' ''2024-05-01T10:00:00.000Z''
                ''00000000001r'' [] = Inr data"
      and r: "values1 data = Inr row"
      and z: "opt_prop (category_of sample_result ''seo'') ''score'' = JNum 0
                \<longrightarrow> map_of (category_columns row) ''seo'' = Some (JNum 0)"
    by blast
  from z sample_seo_zero have "map_of (category_columns row) ''seo'' = Some (JNum 0)"
    by blast
  with d r sample_result_valid seo_category sample_seo_zero show ?thesis
    by blast
qed

section \<open>The batch driver\<close>

lemma batch_loop_run_tasks:
  "batch_loop run d m b k urls w = run_tasks run b k (task_sequence d m urls) w"
proof (induction urls arbitrary: k w)
  case Nil
  show ?case by (simp add: task_sequence_def)
next
  case (Cons url urls)
  have step: "\<And>w. batch_loop run d m b (Suc (Suc k)) urls w =
      run_tasks run b (Suc (Suc k)) (concat (map (\<lambda>url. [(url, d), (url, m)]) urls)) w"
    using Cons.IH [of "Suc (Suc k)"] by (simp add: task_sequence_def)
  show ?case
    by (simp add: task_sequence_def step split: prod.splits completion.splits)
qed

lemma run_tasks_append:
  "run_tasks run b k (ts1 @ ts2) w =
     (case run_tasks run b k ts1 w of
        (Returns u, w1) \<Rightarrow> run_tasks run b (k + length ts1) ts2 w1
      | (Throws e, w1) \<Rightarrow> (Throws e, w1)
      | (Pending, w1) \<Rightarrow> (Pending, w1))"
proof (induction ts1 arbitrary: k w)
  case Nil
  show ?case by simp
next
  case (Cons t ts1)
  obtain url opts where t: "t = (url, opts)" by (cases t)
  show ?case
    by (simp add: t Cons.IH split: prod.splits completion.splits)
qed

lemma split_comma_sample: "split_comma ''a,b'' = [''a'', ''b'']"
  by simp

lemma recording_run_tasks:
  "fst (run_tasks recording_run b k ts w) = Returns () \<and>
   calls (snd (run_tasks recording_run b k ts w)) =
     calls w @ map (\<lambda>(url, opts). Lighthouse url (device opts)) ts"
proof (induction ts arbitrary: k w)
  case Nil
  show ?case by simp
next
  case (Cons t ts)
  obtain url opts where t: "t = (url, opts)" by (cases t)
  show ?case
    using Cons.IH [of "k + 1" "called (Lighthouse url (device opts)) w"]
    by (simp add: t recording_run_def)
qed

text \<open>
  C6. For every URL list, the loop of the driver is the execution, one task after the other,
  of the task sequence (url 1, desktop), (url 1, mobile), (url 2, desktop), (url 2, mobile),
  ...; with a coordinator that records its calls, the record of a batch over the configured
  list is this sequence.
\<close>

theorem batch_task_order:
  "batch_loop run d m b k urls w = run_tasks run b k (task_sequence d m urls) w
   \<and> task_sequence d m urls = concat (map (\<lambda>url. [(url, d), (url, m)]) urls)
   \<and> fst (processLighthouse recording_run desktopOpts2 mobileOpts2
            (P\<lparr>TARGET_URL := Some target\<rparr>) w) = Returns ()
   \<and> calls (snd (processLighthouse recording_run desktopOpts2 mobileOpts2
                   (P\<lparr>TARGET_URL := Some target\<rparr>) w)) =
       calls w @ concat (map (\<lambda>url. [Lighthouse url ''desktop'', Lighthouse url ''mobile''])
                          (split_comma target))"
proof -
  let ?ts = "task_sequence desktopOpts2 mobileOpts2 (split_comma target)"
  have m: "map (\<lambda>(url, opts). Lighthouse url (device opts)) ?ts =
      concat (map (\<lambda>url. [Lighthouse url ''desktop'', Lighthouse url ''mobile''])
                (split_comma target))"
    by (induction "split_comma target")
      (simp_all add: task_sequence_def desktopOpts2_def mobileOpts2_def map_concat comp_def)
  obtain c w1 where r: "run_tasks recording_run (S3_BUCKET_NAME P) 0 ?ts w = (c, w1)"
    by (cases "run_tasks recording_run (S3_BUCKET_NAME P) 0 ?ts w")
  with recording_run_tasks [of "S3_BUCKET_NAME P" 0 ?ts w]
  have c: "c = Returns ()" and w1: "calls w1 = calls w @ map (\<lambda>(url, opts). Lighthouse url (device opts)) ?ts"
    by simp_all
  have "fst (processLighthouse recording_run desktopOpts2 mobileOpts2
            (P\<lparr>TARGET_URL := Some target\<rparr>) w) = Returns ()"
    by (simp add: processLighthouse_def batch_loop_run_tasks r c)
  moreover have "calls (snd (processLighthouse recording_run desktopOpts2 mobileOpts2
                   (P\<lparr>TARGET_URL := Some target\<rparr>) w)) =
       calls w @ concat (map (\<lambda>url. [Lighthouse url ''desktop'', Lighthouse url ''mobile''])
                          (split_comma target))"
    by (simp add: processLighthouse_def batch_loop_run_tasks r c w1 m)
  ultimately show ?thesis
    by (simp add: batch_loop_run_tasks task_sequence_def)
qed

text \<open>
  C4 (as amended). When a failure escapes the coordinator during a task, the driver catches
  it after the loop, logs it and returns normally; the tasks that follow in the sequence are
  not executed: the batch ends in the world that the failing task left, with the log line
  added.
\<close>

theorem escaping_failure_ends_batch:
  assumes "TARGET_URL P = Some target"
    and "task_sequence d m (split_comma target) = ts1 @ (url, opts) # ts2"
    and "run_tasks run (S3_BUCKET_NAME P) 0 ts1 w = (Returns (), w1)"
    and "run (length ts1) url opts (S3_BUCKET_NAME P) w1 = (Throws e, w2)"
  shows "processLighthouse run d m P w =
           (Returns (), logger_error (''Error during scheduled task: '' @ message e) w2)"
  using assms
  by (simp add: processLighthouse_def batch_loop_run_tasks run_tasks_append)

lemma failing_sequence:
  "task_sequence desktopOpts2 mobileOpts2 (split_comma ''a,b'') =
     [] @ (''a'', desktopOpts2) # [(''a'', mobileOpts2), (''b'', desktopOpts2), (''b'', mobileOpts2)]"
  by (simp add: task_sequence_def)

lemma failing_first:
  "failing_run (length ([] :: (string \<times> opts2) list)) ''a'' desktopOpts2
     (S3_BUCKET_NAME sample_platform) w0 =
   (Throws defect, called (Lighthouse ''a'' ''desktop'') w0)"
  by (simp add: failing_run_def desktopOpts2_def)

theorem escaping_failure_ends_batch_witness:
  "processLighthouse failing_run desktopOpts2 mobileOpts2 sample_platform w0 =
     (Returns (),
      logger_error (''Error during scheduled task: '' @ message defect)
        (called (Lighthouse ''a'' ''desktop'') w0))"
  using escaping_failure_ends_batch [of sample_platform "''a,b''" desktopOpts2 mobileOpts2 "[]"
      "''a''" desktopOpts2 "[(''a'', mobileOpts2), (''b'', desktopOpts2), (''b'', mobileOpts2)]"
      failing_run w0 w0 defect "called (Lighthouse ''a'' ''desktop'') w0"]
    failing_sequence failing_first
  by simp

text \<open>
  The claim as stated fails: with a coordinator that throws on the first task of the batch
  over the URLs \<open>a\<close> and \<open>b\<close>, the driver runs that task only; the mobile task of \<open>a\<close>
  and both tasks of \<open>b\<close> are never started.
\<close>

theorem next_task_counterexample:
  "calls (snd (processLighthouse failing_run desktopOpts2 mobileOpts2 sample_platform w0)) =
     [Lighthouse ''a'' ''desktop'']
   \<and> logs (snd (processLighthouse failing_run desktopOpts2 mobileOpts2 sample_platform w0)) =
     [(LError, ''Error during scheduled task: x is not a function'')]"
  by (simp add: processLighthouse_def failing_run_def desktopOpts2_def defect_def)

section \<open>Paths\<close>

lemma path_examples:
  "path_join ''2024-05-01'' ''x.html'' = ''2024-05-01/x.html''"
  "path_join ''outputs'' ''../x'' = ''x''"
  "posix_normalize ''./outputs/a.json'' = ''outputs/a.json''"
  "path_join ''a'' ''b/../../../c'' = ''../c''"
  "posix_normalize ''/a/../../b/'' = ''/b/''"
  "posix_normalize ''a//b/./c/'' = ''a/b/c/''"
  "posix_normalize ''./'' = ''./''"
  "posix_normalize ''..'' = ''..''"
  "posix_normalize ''a/..'' = ''.''"
  "path_join [] ''a'' = ''a''"
  "path_join [] [] = ''.''"
  by (simp_all add: path_join_def posix_normalize_def Let_def)

lemma split_slash_plain: "CHR ''/'' \<notin> set s \<Longrightarrow> split_slash s = [s]"
  by (induction s) auto

lemma split_slash_append:
  "CHR ''/'' \<notin> set a \<Longrightarrow> split_slash (a @ CHR ''/'' # r) = a # split_slash r"
  by (induction a) auto

lemma path_join_plain:
  assumes "plain_segment a" and "plain_segment b"
  shows "path_join a b = a @ ''/'' @ b"
proof -
  from assms have a: "a \<noteq> []" "CHR ''/'' \<notin> set a" "a \<noteq> ''.''" "a \<noteq> ''..''"
    and b: "b \<noteq> []" "CHR ''/'' \<notin> set b" "b \<noteq> ''.''" "b \<noteq> ''..''"
    by (simp_all add: plain_segment_def)
  have s: "split_slash (a @ CHR ''/'' # b) = [a, b]"
    using a(2) b(2) by (simp add: split_slash_append split_slash_plain)
  have h: "hd (a @ ''/'' @ b) \<noteq> CHR ''/''"
    using a(1,2) by (cases a) auto
  have l: "last (a @ ''/'' @ b) \<noteq> CHR ''/''"
    using b(1,2) by (cases b rule: rev_cases) auto
  show ?thesis
    using a b h l by (simp add: path_join_def posix_normalize_def Let_def s)
qed

lemma posix_normalize_dot_slash:
  assumes "plain_segment a" and "plain_segment b"
  shows "posix_normalize (''./'' @ a @ ''/'' @ b) = a @ ''/'' @ b"
proof -
  from assms have a: "a \<noteq> []" "CHR ''/'' \<notin> set a" "a \<noteq> ''.''" "a \<noteq> ''..''"
    and b: "b \<noteq> []" "CHR ''/'' \<notin> set b" "b \<noteq> ''.''" "b \<noteq> ''..''"
    by (simp_all add: plain_segment_def)
  have s: "split_slash (a @ CHR ''/'' # b) = [a, b]"
    using a(2) b(2) by (simp add: split_slash_append split_slash_plain)
  have l: "last (''./'' @ a @ ''/'' @ b) \<noteq> CHR ''/''"
    using b(1,2) by (cases b rule: rev_cases) auto
  show ?thesis
    using a b l by (simp add: posix_normalize_def Let_def s)
qed

section \<open>The characters of dates and names\<close>

lemma lt10_cases:
  "d < (10::nat) \<Longrightarrow> d = 0 \<or> d = 1 \<or> d = 2 \<or> d = 3 \<or> d = 4 \<or> d = 5 \<or> d = 6 \<or> d = 7
    \<or> d = 8 \<or> d = 9"
  by presburger

lemma digit_char_decimal:
  assumes "d < 10"
  shows "digit_char d \<in> set ''0123456789''"
  using lt10_cases [OF assms]
  by (elim disjE) (simp_all add: digit_char_def digits36_def)

lemma digits_radix_decimal: "set (digits_radix 10 n) \<subseteq> set ''0123456789''"
proof (induction "10::nat" n rule: digits_radix.induct)
  case (1 n)
  show ?case
  proof (cases "10 \<le> n")
    case True
    with 1 have "set (digits_radix 10 (n div 10)) \<subseteq> set ''0123456789''" by simp
    moreover have "digit_char (n mod 10) \<in> set ''0123456789''"
      by (rule digit_char_decimal) simp
    ultimately show ?thesis
      using True by (subst digits_radix.simps) simp
  next
    case False
    then have "digit_char n \<in> set ''0123456789''"
      by (intro digit_char_decimal) simp
    with False show ?thesis
      by (subst digits_radix.simps) simp
  qed
qed

lemma zero_pad_decimal: "set (zero_pad n k) \<subseteq> set ''0123456789''"
  using digits_radix_decimal [of "nat k"] by (auto simp: zero_pad_def padStart_def)

lemma zero_pad_no_slash: "CHR ''/'' \<notin> set (zero_pad n k)" "CHR ''.'' \<notin> set (zero_pad n k)"
  using zero_pad_decimal [of n k] by auto

lemma iso_year_no_slash: "CHR ''/'' \<notin> set (iso_year y)"
  by (simp add: iso_year_def zero_pad_no_slash)

lemma iso_time_no_slash: "CHR ''/'' \<notin> set (iso_time_of_day ms)"
  by (simp add: iso_time_of_day_def zero_pad_no_slash)

lemma toISOString_no_slash: "CHR ''/'' \<notin> set (toISOString t)"
  by (cases "civil_from_days (t div 86400000)")
    (simp add: toISOString_def iso_year_no_slash zero_pad_no_slash iso_time_no_slash)

lemma dash_not_dots: "CHR ''-'' \<in> set s \<Longrightarrow> s \<noteq> [] \<and> s \<noteq> ''.'' \<and> s \<noteq> ''..''"
  by auto

lemma format_plain: "plain_segment (format_yyyy_MM_dd tz t)"
proof (cases "civil_from_days ((t + tz * 60000) div 86400000)")
  case (fields y m d)
  then have "CHR ''-'' \<in> set (format_yyyy_MM_dd tz t)"
    by (simp add: format_yyyy_MM_dd_def)
  moreover have "CHR ''/'' \<notin> set (format_yyyy_MM_dd tz t)"
    using fields by (simp add: format_yyyy_MM_dd_def zero_pad_no_slash)
  ultimately show ?thesis
    using dash_not_dots [of "format_yyyy_MM_dd tz t"] by (simp add: plain_segment_def)
qed

lemma urlKey_no_slash: "CHR ''/'' \<notin> set (urlKey_of P url)"
  using key_alphabet [of "unat (p_sha256 P url)"]
  by (auto simp: urlKey_of_def digits36_def)

lemma fileName_plain:
  assumes "CHR ''/'' \<notin> set dev"
  shows "plain_segment (fileName_of (toISOString t) (urlKey_of P url) dev)"
proof -
  have "CHR ''-'' \<in> set (fileName_of (toISOString t) (urlKey_of P url) dev)"
    by (simp add: fileName_of_def)
  moreover have "CHR ''/'' \<notin> set (fileName_of (toISOString t) (urlKey_of P url) dev)"
    using assms toISOString_no_slash [of t] urlKey_no_slash [of P url]
    by (simp add: fileName_of_def)
  ultimately show ?thesis
    using dash_not_dots [of "fileName_of (toISOString t) (urlKey_of P url) dev"]
    by (simp add: plain_segment_def)
qed



lemma s3Key1_plain:
  assumes "CHR ''/'' \<notin> set (formFactor opts)"
  shows "s3Key1 P env url opts =
           format_yyyy_MM_dd (p_utc_offset P (t_archive env)) (t_archive env) @ ''/''
           @ fileName_of (toISOString (t_start env)) (urlKey_of P url) (formFactor opts)"
  using path_join_plain [OF format_plain fileName_plain [OF assms]]
  by (simp add: s3Key1_def)

section \<open>A task of the first variant, step by step\<close>

lemma runLighthouse1_ok:
  assumes "launch_out env = None" and "kill_out env = None" and "engine_out env = Inr result"
  shows "fst (runLighthouse1 env url opts w) = Inr result"
    and "calls (snd (runLighthouse1 env url opts w)) =
           calls w @ [LaunchChrome, Lighthouse url (formFactor opts), KillChrome]"
  using assms by (simp_all add: runLighthouse1_def Let_def)

lemma runAndSave1_try_upload:
  assumes "get_prop result ''report'' = Inr (JStr html)" and "write_out env = None"
    and "check_structure result = Inr ()" and "auth_out env = None"
    and "append_out env = None" and "read_out env = None"
  shows "calls (snd (runAndSave1_try P env result opts b t key fn fp w)) =
           calls w @ [WriteFile fp, GetAuthClient,
                      SheetsAppend sheet_range (record_columns result t (formFactor opts) key),
                      ReadFile fp,
                      S3Send b (path_join (format_yyyy_MM_dd (p_utc_offset P (t_archive env))
                                            (t_archive env)) fn)]"
    and "send_out env = None \<Longrightarrow>
         objects (snd (runAndSave1_try P env result opts b t key fn fp w)) =
           objects w @ [(b, path_join (format_yyyy_MM_dd (p_utc_offset P (t_archive env))
                                        (t_archive env)) fn, html)]"
    and "sheet (snd (runAndSave1_try P env result opts b t key fn fp w)) =
           sheet w @ [record_columns result t (formFactor opts) key]"
  using assms
  by (simp_all add: runAndSave1_try_def Let_def valid_sheet_data saveToGoogleSheets1_def
      saveToGoogleSheets_def values1_data uploadToS3_def fs_readFile_def
      split: option.splits)


lemma runAndSave1_upload_calls:
  assumes "launch_out env = None" and "kill_out env = None" and "engine_out env = Inr result"
    and "get_prop result ''report'' = Inr (JStr html)" and "write_out env = None"
    and "check_structure result = Inr ()" and "auth_out env = None"
    and "append_out env = None" and "read_out env = None"
  shows "calls (snd (runAndSave1 P env url opts b w)) =
           calls w @
           [Mkdir ''outputs'', LaunchChrome, Lighthouse url (formFactor opts), KillChrome,
            WriteFile (filePath1 P env url opts), GetAuthClient,
            SheetsAppend sheet_range
              (record_columns result (toISOString (t_start env)) (formFactor opts)
                 (urlKey_of P url)),
            ReadFile (filePath1 P env url opts),
            S3Send b (s3Key1 P env url opts),
            Unlink (filePath1 P env url opts)]"
  using runLighthouse1_ok [OF assms(1-3)] runAndSave1_try_upload(1) [OF assms(4-9)]
  by (simp add: runAndSave1_def hashStringTo12Digits_urlKey Let_def case_prod_beta
      filePath1_def s3Key1_def split: sum.splits)

lemma runAndSave1_upload_objects:
  assumes "launch_out env = None" and "kill_out env = None" and "engine_out env = Inr result"
    and "get_prop result ''report'' = Inr (JStr html)" and "write_out env = None"
    and "check_structure result = Inr ()" and "auth_out env = None"
    and "append_out env = None" and "read_out env = None" and "send_out env = None"
  shows "objects (snd (runAndSave1 P env url opts b w)) =
           objects w @ [(b, s3Key1 P env url opts, html)]"
  using runLighthouse1_ok [OF assms(1-3)] runAndSave1_try_upload(2) [OF assms(4-10)]
  by (simp add: runAndSave1_def hashStringTo12Digits_urlKey Let_def case_prod_beta
      filePath1_def s3Key1_def split: sum.splits)



section \<open>The log and the sheet of a task\<close>



lemma runAndSave1_try_sheet:
  "sheet (snd (runAndSave1_try P env result opts b t key fn fp w)) =
     sheet w @
     (if reaches_append1 env result \<and> append_out env = None
      then [record_columns result t (formFactor opts) key] else [])"
proof (cases "get_prop result ''report''")
  case (Inl e)
  then show ?thesis
    by (simp add: runAndSave1_try_def reaches_append1_def)
next
  case (Inr report)
  show ?thesis
  proof (cases "writes env report")
    case False
    from fs_writeFile_fails [OF this, of fp w] obtain e
      where "fst (fs_writeFile (write_out env) (write_chunks_out env) fp report w) = Inl e"
      by blast
    with Inr False show ?thesis
      by (simp add: runAndSave1_try_def case_prod_beta reaches_append1_def)
  next
    case True
    note wr = fs_writeFile_writes [OF True, of fp w]
    show ?thesis
    proof (cases "check_structure result")
      case (Inl e)
      with Inr wr show ?thesis
        by (simp add: runAndSave1_try_def Let_def case_prod_beta reaches_append1_def)
    next
      case r: (Inr u)
      then have v: "check_structure result = Inr ()" by simp
      from Inr True wr show ?thesis
        by (simp add: runAndSave1_try_def Let_def case_prod_beta reaches_append1_def v
            valid_sheet_data [OF v] saveToGoogleSheets1_def saveToGoogleSheets_sheet values1_data
            split: sum.splits option.splits)
    qed
  qed
qed

lemma runAndSave2_try_sheet:
  "sheet (snd (runAndSave2_try env result opts t key link fp w)) =
     sheet w @
     (if check_structure result = Inr () \<and> auth_out env = None \<and> append_out env = None
      then [record_columns result t (device opts) key @ [JStr link]] else [])"
proof (cases "check_structure result")
  case (Inl e)
  then show ?thesis
    by (simp add: runAndSave2_try_def Let_def)
next
  case (Inr u)
  then have v: "check_structure result = Inr ()" by simp
  show ?thesis
    by (simp add: runAndSave2_try_def Let_def v valid_sheet_data [OF v] saveToGoogleSheets2_def
        saveToGoogleSheets_sheet values2_data split: option.splits)
qed

lemma runAndSave1_sheet:
  "sheet (snd (runAndSave1 P env url opts b w)) =
     sheet w @
     (case engine_result1 env of
        Inl e \<Rightarrow> []
      | Inr result \<Rightarrow>
          (if reaches_append1 env result \<and> append_out env = None
           then [record_columns result (toISOString (t_start env)) (formFactor opts)
                   (urlKey_of P url)]
           else []))"
  by (simp add: runAndSave1_def hashStringTo12Digits_urlKey Let_def case_prod_beta
      runLighthouse1_fst runAndSave1_try_sheet
      split: sum.splits)

section \<open>A task of the second variant, step by step\<close>

lemma runLighthouse2_ok:
  assumes "exec_error env = None" and "exec_json env = Some j" and "read_json_out env = None"
    and "p_JSON_parse P j = Inr lhr"
  shows "fst (runLighthouse2 P env url dev sz i w) = Returns (JObj [(''lhr'', lhr)])"
  using assms by (simp add: runLighthouse2_def Let_def exec_writes_def fs_readFile_def)

lemma runAndSave2_link_row:
  assumes "exec_error env = None" and "exec_json env = Some j" and "read_json_out env = None"
    and "p_JSON_parse P j = Inr lhr" and "check_structure (JObj [(''lhr'', lhr)]) = Inr ()"
    and "auth_out env = None"
  shows "appended_rows (calls (snd (runAndSave2 P env url opts b w))) =
           appended_rows (calls w) @
           [record_columns (JObj [(''lhr'', lhr)]) (toISOString (t_start env)) (device opts)
              (urlKey_of P url) @ [JStr (link2 P env url opts)]]"
  using runLighthouse2_ok [OF assms(1-4)] assms(5,6)
  by (simp add: runAndSave2_def hashStringTo12Digits_urlKey Let_def case_prod_beta
      runAndSave2_try_rows link2_def split: sum.splits)

lemma link2_path:
  "link2 P env url opts =
     env_or_undefined (HOST P) @ ''/''
     @ format_yyyy_MM_dd (p_utc_offset P (t_archive env)) (t_archive env) @ ''/''
     @ toISOString (t_start env) @ ''-'' @ urlKey_of P url @ ''-lighthouse-report-''
     @ device opts @ ''.html''"
  by (simp add: link2_def s3Path_of_def fileName_of_def)

lemma s3Key1_path:
  assumes "CHR ''/'' \<notin> set (formFactor opts)"
  shows "s3Key1 P env url opts =
     format_yyyy_MM_dd (p_utc_offset P (t_archive env)) (t_archive env) @ ''/''
     @ toISOString (t_start env) @ ''-'' @ urlKey_of P url @ ''-lighthouse-report-''
     @ formFactor opts @ ''.html''"
  using s3Key1_plain [OF assms] by (simp add: fileName_of_def)

lemma key_example: "urlKey_of example_platform u = ''ab12cd34ef56''"
  by (simp add: urlKey_of_def example_platform_def sample_platform_def str_eval)

lemma example_platform_simps [simp]:
  "p_utc_offset example_platform t = 0"
  "HOST example_platform = Some ''https://cdn.example.com''"
  "p_JSON_parse example_platform sample_json = Inr sample_lhr"
  by (simp_all add: example_platform_def sample_platform_def)

lemma env_late_simps [simp]:
  "t_start env_late = 1714607999999" "t_archive env_late = 1714608000000"
  "launch_out env_late = None"
  "engine_out env_late = Inr sample_result" "kill_out env_late = None"
  "write_out env_late = None"
  "auth_out env_late = None" "append_out env_late = None" "read_out env_late = None"
  "send_out env_late = None"
  by (simp_all add: env_late_def env_ok_def)

lemma sample_lhr_valid: "check_structure (JObj [(''lhr'', sample_lhr)]) = Inr ()"
  by (simp add: check_structure_ok sample_lhr_def opt_prop_def falsy_def report_field_def)

lemma mobile_plain: "CHR ''/'' \<notin> set (formFactor mobileOpts1)"
  "CHR ''/'' \<notin> set (formFactor desktopOpts1)"
  by (simp_all add: mobileOpts1_def desktopOpts1_def)

lemma example_key1:
  "s3Key1 example_platform env_ok u mobileOpts1 =
     ''2024-05-01/2024-05-01T10:00:00.000Z-ab12cd34ef56-lighthouse-report-mobile.html''"
  "s3Key1 example_platform env_late u mobileOpts1 =
     ''2024-05-02/2024-05-01T23:59:59.999Z-ab12cd34ef56-lighthouse-report-mobile.html''"
  unfolding s3Key1_path [OF mobile_plain(1)]
  by (simp_all add: key_example iso_start iso_late ymd_archive ymd_next_day mobileOpts1_def)

lemma example_link2:
  "link2 example_platform env_ok u mobileOpts2 =
     ''https://cdn.example.com/2024-05-01/2024-05-01T10:00:00.000Z-ab12cd34ef56-lighthouse-report-mobile.html''"
  by (simp add: link2_path key_example iso_start ymd_archive mobileOpts2_def env_or_undefined_def)

text \<open>
  C8. In a task of the first variant that gets as far as the upload, the one object sent to
  the bucket has the key \<open><date>/<timestamp>-<urlKey>-lighthouse-report-<device>.html\<close>,
  where the date is \<open>yyyy-MM-dd\<close> of the clock reading taken in \<open>uploadToS3\<close> and the
  timestamp is the ISO string of the start of the task; when the send succeeds the report is
  stored under this key. (\<open>path.join\<close> normalises its result, so this needs a device name
  without a slash, as both device names of the program are.) In the second variant the same
  path, with the date of the clock reading taken in \<open>runAndSave\<close>, follows the host in the
  link column of the appended row. For a task started at 2024-05-01T10:00:00Z with the key
  \<open>ab12cd34ef56\<close> and the device \<open>mobile\<close>, archived on the same day, the path is that of
  the example; archived a millisecond after a start at 23:59:59.999, it is under 2 May.
\<close>

theorem storage_path_of_task:
  "(launch_out env = None \<and> kill_out env = None \<and> engine_out env = Inr result
      \<and> get_prop result ''report'' = Inr (JStr html) \<and> write_out env = None
      \<and> check_structure result = Inr () \<and> auth_out env = None \<and> append_out env = None
      \<and> read_out env = None \<and> CHR ''/'' \<notin> set (formFactor opts) \<longrightarrow>
    filter is_S3Send (calls (snd (runAndSave1 P env url opts b w))) =
      filter is_S3Send (calls w) @
      [S3Send b
         (format_yyyy_MM_dd (p_utc_offset P (t_archive env)) (t_archive env) @ ''/''
          @ toISOString (t_start env) @ ''-'' @ urlKey_of P url @ ''-lighthouse-report-''
          @ formFactor opts @ ''.html'')]
    \<and> (send_out env = None \<longrightarrow>
         objects (snd (runAndSave1 P env url opts b w)) =
           objects w @
           [(b, format_yyyy_MM_dd (p_utc_offset P (t_archive env)) (t_archive env) @ ''/''
                @ toISOString (t_start env) @ ''-'' @ urlKey_of P url @ ''-lighthouse-report-''
                @ formFactor opts @ ''.html'', html)]))
   \<and> (exec_error env = None \<and> exec_json env = Some j \<and> read_json_out env = None
      \<and> p_JSON_parse P j = Inr lhr \<and> check_structure (JObj [(''lhr'', lhr)]) = Inr ()
      \<and> auth_out env = None \<longrightarrow>
    appended_rows (calls (snd (runAndSave2 P env url opts2 b w))) =
      appended_rows (calls w) @
      [record_columns (JObj [(''lhr'', lhr)]) (toISOString (t_start env)) (device opts2)
         (urlKey_of P url)
       @ [JStr (env_or_undefined (HOST P) @ ''/''
                @ format_yyyy_MM_dd (p_utc_offset P (t_archive env)) (t_archive env) @ ''/''
                @ toISOString (t_start env) @ ''-'' @ urlKey_of P url @ ''-lighthouse-report-''
                @ device opts2 @ ''.html'')]])
   \<and> filter is_S3Send
        (calls (snd (runAndSave1 example_platform env_ok ''https://example1.com'' mobileOpts1
                       (Some ''reports'') w0))) =
      [S3Send (Some ''reports'')
         ''2024-05-01/2024-05-01T10:00:00.000Z-ab12cd34ef56-lighthouse-report-mobile.html'']
   \<and> objects (snd (runAndSave1 example_platform env_late ''https://example1.com'' mobileOpts1
                      (Some ''reports'') w0)) =
      [(Some ''reports'',
        ''2024-05-02/2024-05-01T23:59:59.999Z-ab12cd34ef56-lighthouse-report-mobile.html'',
        ''<html></html>'')]
   \<and> map last
        (appended_rows
           (calls (snd (runAndSave2 example_platform env_ok ''https://example1.com'' mobileOpts2
                          (Some ''reports'') w0)))) =
      [JStr ''https://cdn.example.com/2024-05-01/2024-05-01T10:00:00.000Z-ab12cd34ef56-lighthouse-report-mobile.html'']"
proof (intro conjI impI; (elim conjE)?)
  assume h: "launch_out env = None" "kill_out env = None" "engine_out env = Inr result"
    "get_prop result ''report'' = Inr (JStr html)" "write_out env = None"
    "check_structure result = Inr ()" "auth_out env = None" "append_out env = None"
    "read_out env = None" and dev: "CHR ''/'' \<notin> set (formFactor opts)"
  show "filter is_S3Send (calls (snd (runAndSave1 P env url opts b w))) =
      filter is_S3Send (calls w) @
      [S3Send b
         (format_yyyy_MM_dd (p_utc_offset P (t_archive env)) (t_archive env) @ ''/''
          @ toISOString (t_start env) @ ''-'' @ urlKey_of P url @ ''-lighthouse-report-''
          @ formFactor opts @ ''.html'')]"
    unfolding runAndSave1_upload_calls [OF h] by (simp add: s3Key1_path [OF dev])
  assume s: "send_out env = None"
  show "objects (snd (runAndSave1 P env url opts b w)) =
           objects w @
           [(b, format_yyyy_MM_dd (p_utc_offset P (t_archive env)) (t_archive env) @ ''/''
                @ toISOString (t_start env) @ ''-'' @ urlKey_of P url @ ''-lighthouse-report-''
                @ formFactor opts @ ''.html'', html)]"
    unfolding runAndSave1_upload_objects [OF h s] by (simp add: s3Key1_path [OF dev])
next
  assume h: "exec_error env = None" "exec_json env = Some j" "read_json_out env = None"
    "p_JSON_parse P j = Inr lhr" "check_structure (JObj [(''lhr'', lhr)]) = Inr ()"
    "auth_out env = None"
  show "appended_rows (calls (snd (runAndSave2 P env url opts2 b w))) =
      appended_rows (calls w) @
      [record_columns (JObj [(''lhr'', lhr)]) (toISOString (t_start env)) (device opts2)
         (urlKey_of P url)
       @ [JStr (env_or_undefined (HOST P) @ ''/''
                @ format_yyyy_MM_dd (p_utc_offset P (t_archive env)) (t_archive env) @ ''/''
                @ toISOString (t_start env) @ ''-'' @ urlKey_of P url @ ''-lighthouse-report-''
                @ device opts2 @ ''.html'')]]"
    unfolding runAndSave2_link_row [OF h] by (simp add: link2_path)
next
  have "calls (snd (runAndSave1 example_platform env_ok ''https://example1.com'' mobileOpts1
                       (Some ''reports'') w0)) =
           calls w0 @
           [Mkdir ''outputs'', LaunchChrome, Lighthouse ''https://example1.com'' (formFactor mobileOpts1), KillChrome,
            WriteFile (filePath1 example_platform env_ok ''https://example1.com'' mobileOpts1), GetAuthClient,
            SheetsAppend sheet_range
              (record_columns sample_result (toISOString (t_start env_ok)) (formFactor mobileOpts1)
                 (urlKey_of example_platform ''https://example1.com'')),
            ReadFile (filePath1 example_platform env_ok ''https://example1.com'' mobileOpts1),
            S3Send (Some ''reports'') (s3Key1 example_platform env_ok ''https://example1.com'' mobileOpts1),
            Unlink (filePath1 example_platform env_ok ''https://example1.com'' mobileOpts1)]"
    by (intro runAndSave1_upload_calls [where html = "''<html></html>''"])
      (simp_all add: sample_result_valid sample_result_report)
  then show "filter is_S3Send
        (calls (snd (runAndSave1 example_platform env_ok ''https://example1.com'' mobileOpts1
                       (Some ''reports'') w0))) =
      [S3Send (Some ''reports'')
         ''2024-05-01/2024-05-01T10:00:00.000Z-ab12cd34ef56-lighthouse-report-mobile.html'']"
    by (simp add: example_key1)
next
  have "objects (snd (runAndSave1 example_platform env_late ''https://example1.com'' mobileOpts1
                      (Some ''reports'') w0)) =
      objects w0 @ [(Some ''reports'', s3Key1 example_platform env_late ''https://example1.com'' mobileOpts1,
        ''<html></html>'')]"
    by (intro runAndSave1_upload_objects [where result = sample_result])
      (simp_all add: sample_result_valid sample_result_report)
  then show "objects (snd (runAndSave1 example_platform env_late ''https://example1.com'' mobileOpts1
                      (Some ''reports'') w0)) =
      [(Some ''reports'',
        ''2024-05-02/2024-05-01T23:59:59.999Z-ab12cd34ef56-lighthouse-report-mobile.html'',
        ''<html></html>'')]"
    by (simp add: example_key1)
next
  have "appended_rows (calls (snd (runAndSave2 example_platform env_ok ''https://example1.com'' mobileOpts2
                          (Some ''reports'') w0))) =
           appended_rows (calls w0) @
           [record_columns (JObj [(''lhr'', sample_lhr)]) (toISOString (t_start env_ok)) (device mobileOpts2)
              (urlKey_of example_platform ''https://example1.com'')
            @ [JStr (link2 example_platform env_ok ''https://example1.com'' mobileOpts2)]]"
    by (intro runAndSave2_link_row [where j = sample_json])
      (simp_all add: sample_lhr_valid)
  then show "map last
        (appended_rows
           (calls (snd (runAndSave2 example_platform env_ok ''https://example1.com'' mobileOpts2
                          (Some ''reports'') w0)))) =
      [JStr ''https://cdn.example.com/2024-05-01/2024-05-01T10:00:00.000Z-ab12cd34ef56-lighthouse-report-mobile.html'']"
    by (simp add: example_link2)
qed

theorem storage_path_of_task_witness:
  "(launch_out env_ok = None \<and> kill_out env_ok = None \<and> engine_out env_ok = Inr sample_result
      \<and> get_prop sample_result ''report'' = Inr (JStr ''<html></html>'')
      \<and> write_out env_ok = None \<and> check_structure sample_result = Inr ()
      \<and> auth_out env_ok = None \<and> append_out env_ok = None \<and> read_out env_ok = None
      \<and> CHR ''/'' \<notin> set (formFactor desktopOpts1) \<and> send_out env_ok = None)
   \<and> filter is_S3Send
        (calls (snd (runAndSave1 sample_platform env_ok ''a'' desktopOpts1 (Some ''reports'') w0))) =
      [S3Send (Some ''reports'')
         ''2024-05-01/2024-05-01T10:00:00.000Z-00000000001r-lighthouse-report-desktop.html'']
   \<and> objects (snd (runAndSave1 sample_platform env_ok ''a'' desktopOpts1 (Some ''reports'') w0)) =
      [(Some ''reports'',
        ''2024-05-01/2024-05-01T10:00:00.000Z-00000000001r-lighthouse-report-desktop.html'',
        ''<html></html>'')]
   \<and> (exec_error env_ok = None \<and> exec_json env_ok = Some sample_json
      \<and> read_json_out env_ok = None \<and> p_JSON_parse sample_platform sample_json = Inr sample_lhr
      \<and> check_structure (JObj [(''lhr'', sample_lhr)]) = Inr ())
   \<and> map last
        (appended_rows
           (calls (snd (runAndSave2 sample_platform env_ok ''a'' desktopOpts2 (Some ''reports'') w0)))) =
      [JStr ''https://cdn.example.com/2024-05-01/2024-05-01T10:00:00.000Z-00000000001r-lighthouse-report-desktop.html'']"
  using storage_path_of_task [of env_ok sample_result "''<html></html>''" desktopOpts1
      sample_platform "''a''" "Some ''reports''" w0 sample_json sample_lhr desktopOpts2]
  by (simp add: sample_result_valid sample_result_report sample_lhr_valid mobile_plain
      key_sample iso_start ymd_archive desktopOpts1_def desktopOpts2_def env_or_undefined_def)

section \<open>The rows and the sheet after a task of the second variant\<close>

lemma runAndSave2_parsed_rows:
  assumes "exec_error env = None" and "exec_json env = Some j" and "read_json_out env = None"
    and "p_JSON_parse P j = Inr lhr"
  shows "appended_rows (calls (snd (runAndSave2 P env url opts b w))) =
           appended_rows (calls w) @
           (if check_structure (JObj [(''lhr'', lhr)]) = Inr () \<and> auth_out env = None
            then [record_columns (JObj [(''lhr'', lhr)]) (toISOString (t_start env)) (device opts)
                    (urlKey_of P url) @ [JStr (link2 P env url opts)]]
            else [])"
    and "sheet (snd (runAndSave2 P env url opts b w)) =
           sheet w @
           (if check_structure (JObj [(''lhr'', lhr)]) = Inr () \<and> auth_out env = None
               \<and> append_out env = None
            then [record_columns (JObj [(''lhr'', lhr)]) (toISOString (t_start env)) (device opts)
                    (urlKey_of P url) @ [JStr (link2 P env url opts)]]
            else [])"
  using runLighthouse2_ok [OF assms(1-4)]
  by (simp_all add: runAndSave2_def hashStringTo12Digits_urlKey Let_def case_prod_beta
      runAndSave2_try_rows runAndSave2_try_sheet link2_def split: sum.splits)

lemma runAndSave1_engine_rows:
  assumes "launch_out env = None" and "kill_out env = None" and "engine_out env = Inr result"
  shows "appended_rows (calls (snd (runAndSave1 P env url opts b w))) =
           appended_rows (calls w) @
           (if reaches_append1 env result
            then [record_columns result (toISOString (t_start env)) (formFactor opts)
                    (urlKey_of P url)]
            else [])"
    and "sheet (snd (runAndSave1 P env url opts b w)) =
           sheet w @
           (if reaches_append1 env result \<and> append_out env = None
            then [record_columns result (toISOString (t_start env)) (formFactor opts)
                    (urlKey_of P url)]
            else [])"
  using assms by (simp_all add: runAndSave1_rows runAndSave1_sheet engine_result1_def)

lemma env_with_simps [simp]:
  "t_start (env_with r) = 1714557600000" "t_archive (env_with r) = 1714557601500"
  "launch_out (env_with r) = None" "engine_out (env_with r) = Inr r"
  "kill_out (env_with r) = None" "write_out (env_with r) = None"
  "auth_out (env_with r) = None" "append_out (env_with r) = None"
  "exec_error (env_with r) = None" "exec_json (env_with r) = Some sample_json"
  "read_json_out (env_with r) = None"
  by (simp_all add: env_with_def env_ok_def)

lemma platform_with_simps [simp]:
  "p_JSON_parse (platform_with lhr) s = Inr lhr"
  "p_utc_offset (platform_with lhr) t = 0"
  "HOST (platform_with lhr) = Some ''https://cdn.example.com''"
  by (simp_all add: platform_with_def sample_platform_def)

lemma key_platform_with: "urlKey_of (platform_with lhr) u = ''00000000001r''"
  by (simp add: urlKey_of_def platform_with_def sample_platform_def str_eval)

lemma env_append_fails_simps [simp]:
  "t_start env_append_fails = 1714557600000"
  "launch_out env_append_fails = None" "engine_out env_append_fails = Inr sample_result"
  "kill_out env_append_fails = None" "write_out env_append_fails = None"
  "auth_out env_append_fails = None" "append_out env_append_fails = Some quota_error"
  by (simp_all add: env_append_fails_def env_ok_def)

lemma without_finalUrl_valid:
  "check_structure result_without_finalUrl = Inr ()"
  "check_structure (JObj [(''lhr'', lhr_without_finalUrl)]) = Inr ()"
  "get_prop result_without_finalUrl ''report'' = Inr (JStr ''<html></html>'')"
  by (simp_all add: check_structure_ok result_without_finalUrl_def lhr_without_finalUrl_def
      opt_prop_def falsy_def report_field_def get_prop_def)

lemma without_categories_invalid:
  "check_structure result_without_categories = Inl invalid_structure"
  "check_structure (JObj [(''lhr'', lhr_without_categories)]) = Inl invalid_structure"
  by (simp_all add: check_structure_invalid result_without_categories_def
      lhr_without_categories_def opt_prop_def falsy_def report_field_def nullish_def)

lemma without_finalUrl_columns:
  "record_columns result_without_finalUrl date dev key =
     [JStr date, JStr dev, JStr key, JUndefined, JNum 1, JStr ''N/A'', JStr ''N/A'',
      JStr ''N/A'', JStr ''N/A'', JStr ''Mozilla/5.0'']"
  "record_columns (JObj [(''lhr'', lhr_without_finalUrl)]) date dev key =
     [JStr date, JStr dev, JStr key, JUndefined, JNum 1, JStr ''N/A'', JStr ''N/A'',
      JStr ''N/A'', JStr ''N/A'', JStr ''Mozilla/5.0'']"
  by (simp_all add: record_columns_def report_field_def score_column_def category_of_def
      result_without_finalUrl_def lhr_without_finalUrl_def opt_prop_def nullish_def)

lemma without_finalUrl_reaches: "reaches_append1 (env_with result_without_finalUrl) result_without_finalUrl"
  by (simp add: reaches_append1_def writes_def without_finalUrl_valid)





text \<open>
  The claim as stated fails twice. A report with categories and no final URL passes the
  check, and its row is appended with an undefined final URL; a report with a final URL and
  no categories fails the check.
\<close>

theorem structure_check_counterexample:
  "report_field result_without_finalUrl ''finalUrl'' = JUndefined
   \<and> sheet (snd (runAndSave1 sample_platform (env_with result_without_finalUrl) ''a''
                    desktopOpts1 (Some ''reports'') w0)) =
      [[JStr ''2024-05-01T10:00:00.000Z'', JStr ''desktop'', JStr ''00000000001r'', JUndefined,
        JNum 1, JStr ''N/A'', JStr ''N/A'', JStr ''N/A'', JStr ''N/A'', JStr ''Mozilla/5.0'']]
   \<and> report_field result_without_categories ''finalUrl'' = JStr ''https://example1.com/''
   \<and> check_structure result_without_categories = Inl invalid_structure"
  by (simp add: runAndSave1_engine_rows(2) without_finalUrl_reaches without_finalUrl_columns
      without_categories_invalid iso_start key_sample desktopOpts1_def)
    (simp add: report_field_def opt_prop_def result_without_finalUrl_def
      lhr_without_finalUrl_def result_without_categories_def lhr_without_categories_def)

text \<open>
  C2 (as amended). The check of the structure fails with the error
  \<open>Invalid Lighthouse result structure\<close> exactly when the result of the engine is an object
  whose \<open>lhr\<close> or whose \<open>lhr.categories\<close> is missing or falsy; the final URL plays no part in
  it. When the check does not pass, the task appends no row, in either variant: no append is
  called and the sheet is as before. When it passes and the task gets as far as the append,
  the row carries the final URL of the report as it is.
\<close>

theorem row_only_after_structure_check:
  "(check_structure result = Inl invalid_structure \<longleftrightarrow>
      \<not> nullish result \<and>
      (falsy (opt_prop result ''lhr'') \<or> falsy (report_field result ''categories'')))
   \<and> (launch_out env = None \<and> kill_out env = None \<and> engine_out env = Inr result
       \<and> check_structure result \<noteq> Inr () \<longrightarrow>
       appended_rows (calls (snd (runAndSave1 P env url opts b w))) = appended_rows (calls w)
       \<and> sheet (snd (runAndSave1 P env url opts b w)) = sheet w)
   \<and> (exec_error env = None \<and> exec_json env = Some j \<and> read_json_out env = None
       \<and> p_JSON_parse P j = Inr lhr \<and> check_structure (JObj [(''lhr'', lhr)]) \<noteq> Inr () \<longrightarrow>
       appended_rows (calls (snd (runAndSave2 P env url opts2 b w))) = appended_rows (calls w)
       \<and> sheet (snd (runAndSave2 P env url opts2 b w)) = sheet w)
   \<and> (launch_out env = None \<and> kill_out env = None \<and> engine_out env = Inr result
       \<and> reaches_append1 env result \<longrightarrow>
       appended_rows (calls (snd (runAndSave1 P env url opts b w))) =
         appended_rows (calls w) @
         [record_columns result (toISOString (t_start env)) (formFactor opts) (urlKey_of P url)]
       \<and> record_columns result (toISOString (t_start env)) (formFactor opts) (urlKey_of P url) ! 3
           = report_field result ''finalUrl'')"
proof (intro conjI impI; (elim conjE)?)
  show "check_structure result = Inl invalid_structure \<longleftrightarrow>
      \<not> nullish result \<and>
      (falsy (opt_prop result ''lhr'') \<or> falsy (report_field result ''categories''))"
    by (rule check_structure_invalid)
next
  assume h: "launch_out env = None" "kill_out env = None" "engine_out env = Inr result"
    and c: "check_structure result \<noteq> Inr ()"
  from c have r: "\<not> reaches_append1 env result"
    by (simp add: reaches_append1_def)
  show "appended_rows (calls (snd (runAndSave1 P env url opts b w))) = appended_rows (calls w)"
    using r by (simp add: runAndSave1_engine_rows(1) [OF h])
  show "sheet (snd (runAndSave1 P env url opts b w)) = sheet w"
    using r by (simp add: runAndSave1_engine_rows(2) [OF h])
next
  assume h: "exec_error env = None" "exec_json env = Some j" "read_json_out env = None"
    "p_JSON_parse P j = Inr lhr" and c: "check_structure (JObj [(''lhr'', lhr)]) \<noteq> Inr ()"
  show "appended_rows (calls (snd (runAndSave2 P env url opts2 b w))) = appended_rows (calls w)"
    using c by (simp add: runAndSave2_parsed_rows(1) [OF h])
  show "sheet (snd (runAndSave2 P env url opts2 b w)) = sheet w"
    using c by (simp add: runAndSave2_parsed_rows(2) [OF h])
next
  assume h: "launch_out env = None" "kill_out env = None" "engine_out env = Inr result"
    and r: "reaches_append1 env result"
  show "appended_rows (calls (snd (runAndSave1 P env url opts b w))) =
         appended_rows (calls w) @
         [record_columns result (toISOString (t_start env)) (formFactor opts) (urlKey_of P url)]"
    using r by (simp add: runAndSave1_engine_rows(1) [OF h])
  show "record_columns result (toISOString (t_start env)) (formFactor opts) (urlKey_of P url) ! 3
           = report_field result ''finalUrl''"
    by (simp add: record_columns_def)
qed

theorem row_only_after_structure_check_witness:
  "(launch_out (env_with result_without_categories) = None
      \<and> kill_out (env_with result_without_categories) = None
      \<and> engine_out (env_with result_without_categories) = Inr result_without_categories
      \<and> check_structure result_without_categories \<noteq> Inr ()
      \<and> exec_error (env_with result_without_categories) = None
      \<and> exec_json (env_with result_without_categories) = Some sample_json
      \<and> read_json_out (env_with result_without_categories) = None
      \<and> p_JSON_parse (platform_with lhr_without_categories) sample_json
           = Inr lhr_without_categories
      \<and> check_structure (JObj [(''lhr'', lhr_without_categories)]) \<noteq> Inr ())
   \<and> \<not> reaches_append1 (env_with result_without_categories) result_without_categories
   \<and> appended_rows
        (calls (snd (runAndSave1 (platform_with lhr_without_categories)
                       (env_with result_without_categories) ''a'' desktopOpts1
                       (Some ''reports'') w0))) = []
   \<and> sheet (snd (runAndSave1 (platform_with lhr_without_categories)
                    (env_with result_without_categories) ''a'' desktopOpts1
                    (Some ''reports'') w0)) = []
   \<and> appended_rows
        (calls (snd (runAndSave2 (platform_with lhr_without_categories)
                       (env_with result_without_categories) ''a'' desktopOpts2
                       (Some ''reports'') w0))) = []
   \<and> sheet (snd (runAndSave2 (platform_with lhr_without_categories)
                    (env_with result_without_categories) ''a'' desktopOpts2
                    (Some ''reports'') w0)) = []
   \<and> (launch_out (env_with result_without_finalUrl) = None
      \<and> kill_out (env_with result_without_finalUrl) = None
      \<and> engine_out (env_with result_without_finalUrl) = Inr result_without_finalUrl
      \<and> reaches_append1 (env_with result_without_finalUrl) result_without_finalUrl)
   \<and> appended_rows
        (calls (snd (runAndSave1 sample_platform (env_with result_without_finalUrl) ''a''
                       mobileOpts1 (Some ''reports'') w0))) =
      [[JStr ''2024-05-01T10:00:00.000Z'', JStr ''mobile'', JStr ''00000000001r'', JUndefined,
        JNum 1, JStr ''N/A'', JStr ''N/A'', JStr ''N/A'', JStr ''N/A'', JStr ''Mozilla/5.0'']]"
  using row_only_after_structure_check [of result_without_categories
      "env_with result_without_categories" "platform_with lhr_without_categories" "''a''"
      desktopOpts1 "Some ''reports''" w0 sample_json lhr_without_categories desktopOpts2]
    row_only_after_structure_check [of result_without_finalUrl
      "env_with result_without_finalUrl" sample_platform "''a''"
      mobileOpts1 "Some ''reports''" w0 sample_json lhr_without_finalUrl desktopOpts2]
  by (simp add: without_categories_invalid without_finalUrl_reaches without_finalUrl_columns
      iso_start key_sample mobileOpts1_def)
    (simp add: reaches_append1_def without_categories_invalid)

section \<open>The local files of a task\<close>

lemma exec_writes_files_cong:
  "files w = files w' \<Longrightarrow> files (exec_writes env i w) = files (exec_writes env i w')"
  by (simp add: exec_writes_def Let_def split: option.splits)

lemma runLighthouse2_files:
  "files (snd (runLighthouse2 P env url dev sz i w)) = files (exec_writes env i w)"
proof -
  have "files (snd (runLighthouse2 P env url dev sz i w)) =
      files (exec_writes env i
        (called (Exec (lighthouse_command url dev sz i))
          (logger_info (''Running command '' @ lighthouse_command url dev sz i) w)))"
    by (simp add: runLighthouse2_def Let_def case_prod_beta split: option.splits sum.splits)
  also have "\<dots> = files (exec_writes env i w)"
    by (rule exec_writes_files_cong) simp
  finally show ?thesis .
qed

lemma runAndSave2_files:
  "files (snd (runAndSave2 P env url opts b w)) = files (exec_writes env (t_start env) w)"
proof -
  have "files (snd (runAndSave2 P env url opts b w)) =
      files (exec_writes env (t_start env)
        (ensureDirectoryExists (mkdir_out env) ''outputs''
           (logger_info
              (''Processing started at '' @ toISOString (t_start env) @ '' for URL: '' @ url) w)))"
    by (simp add: runAndSave2_def hashStringTo12Digits_urlKey Let_def case_prod_beta
        runLighthouse2_files split: completion.splits sum.splits)
  also have "\<dots> = files (exec_writes env (t_start env) w)"
    by (rule exec_writes_files_cong) simp
  finally show ?thesis .
qed

lemma runLighthouse2_no_unlink:
  "filter is_Unlink (calls (snd (runLighthouse2 P env url dev sz i w))) =
     filter is_Unlink (calls w)"
  by (simp add: runLighthouse2_def Let_def case_prod_beta split: option.splits sum.splits)

lemma saveToGoogleSheets_no_unlink:
  "filter is_Unlink (calls (snd (saveToGoogleSheets vals env data w))) =
     filter is_Unlink (calls w)"
  by (simp add: saveToGoogleSheets_def Let_def split: option.splits sum.splits)

lemma runAndSave2_try_no_unlink:
  "filter is_Unlink (calls (snd (runAndSave2_try env result opts t key link fp w))) =
     filter is_Unlink (calls w)"
  by (simp add: runAndSave2_try_def Let_def saveToGoogleSheets2_def saveToGoogleSheets_no_unlink
      split: sum.splits)

lemma runAndSave2_no_unlink:
  "filter is_Unlink (calls (snd (runAndSave2 P env url opts b w))) = filter is_Unlink (calls w)"
  by (simp add: runAndSave2_def hashStringTo12Digits_urlKey Let_def case_prod_beta
      runLighthouse2_no_unlink runAndSave2_try_no_unlink split: completion.splits sum.splits)

lemma runAndSave2_sample_log:
  "(LInfo, ''Local HTML file deleted: outputs/1714557600000.report.html'')
     \<in> set (logs (snd (runAndSave2 sample_platform env_ok ''a'' desktopOpts2 (Some ''reports'') w0)))"
proof -
  have p: "path_join ''outputs'' ''1714557600000.report.html'' = ''outputs/1714557600000.report.html''"
    by (simp add: path_join_def posix_normalize_def Let_def)
  have r: "\<And>url dev sz i w. fst (runLighthouse2 sample_platform env_ok url dev sz i w) =
      Returns (JObj [(''lhr'', sample_lhr)])"
    by (rule runLighthouse2_ok [where j = sample_json]) simp_all
  show ?thesis
    by (simp add: runAndSave2_def hashStringTo12Digits_urlKey Let_def case_prod_beta
      r dec_start p split: sum.splits)
qed

lemma runAndSave2_sample_returns:
  "fst (runAndSave2 sample_platform env_ok ''a'' desktopOpts2 (Some ''reports'') w0) = Returns ()"
proof -
  have r: "\<And>url dev sz i w. fst (runLighthouse2 sample_platform env_ok url dev sz i w) =
      Returns (JObj [(''lhr'', sample_lhr)])"
    by (rule runLighthouse2_ok [where j = sample_json]) simp_all
  show ?thesis
    by (simp add: runAndSave2_def hashStringTo12Digits_urlKey Let_def case_prod_beta r)
qed

lemma sample_exec_files:
  "files (exec_writes env_ok 1714557600000 w0) ''outputs/1714557600000.report.html''
     = Some ''<html></html>''"
  "files (exec_writes env_ok 1714557600000 w0) ''outputs/1714557600000.report.json''
     = Some sample_json"
  by (simp_all add: exec_writes_def dec_start norm_path_def posix_normalize_def Let_def)

text \<open>
  C3, on the second variant. Whatever happens in a task, the files in the working directory
  at its end are those that the engine subprocess left, and the task makes no \<open>unlink\<close>
  call. After the sample task, which runs to its end, the HTML report and the JSON sidecar
  are still there, and the log says that the local HTML file was deleted.
\<close>

theorem local_files_remain:
  "files (snd (runAndSave2 P env url opts b w)) = files (exec_writes env (t_start env) w)
   \<and> filter is_Unlink (calls (snd (runAndSave2 P env url opts b w))) = filter is_Unlink (calls w)
   \<and> fst (runAndSave2 sample_platform env_ok ''a'' desktopOpts2 (Some ''reports'') w0) = Returns ()
   \<and> files w0 ''outputs/1714557600000.report.html'' = None
   \<and> files w0 ''outputs/1714557600000.report.json'' = None
   \<and> files (snd (runAndSave2 sample_platform env_ok ''a'' desktopOpts2 (Some ''reports'') w0))
        ''outputs/1714557600000.report.html'' = Some ''<html></html>''
   \<and> files (snd (runAndSave2 sample_platform env_ok ''a'' desktopOpts2 (Some ''reports'') w0))
        ''outputs/1714557600000.report.json'' = Some sample_json
   \<and> filter is_Unlink
        (calls (snd (runAndSave2 sample_platform env_ok ''a'' desktopOpts2 (Some ''reports'') w0)))
      = []
   \<and> (LInfo, ''Local HTML file deleted: outputs/1714557600000.report.html'')
        \<in> set (logs (snd (runAndSave2 sample_platform env_ok ''a'' desktopOpts2 (Some ''reports'') w0)))"
  by (simp add: runAndSave2_sample_returns runAndSave2_files runAndSave2_no_unlink
      runAndSave2_sample_log sample_exec_files)

text \<open>
  The first variant does remove its file: when the engine returned and \<open>unlink\<close> does not
  fail, the HTML file of the task is gone at the end of the task, whatever the append and the
  upload did.
\<close>

lemma runAndSave1_finally_files:
  "unlink_out env = None \<Longrightarrow> files (runAndSave1_finally env fp w) (norm_path fp) = None"
  by (auto simp: runAndSave1_finally_def fs_unlink_def Let_def split: option.splits)

lemma runAndSave1_removes_file:
  assumes "engine_result1 env = Inr result" and "unlink_out env = None"
  shows "files (snd (runAndSave1 P env url opts b w)) (norm_path (filePath1 P env url opts)) = None"
proof -
  have "\<And>w. files (runAndSave1_finally env (filePath1 P env url opts) w)
      (norm_path (filePath1 P env url opts)) = None"
    by (rule runAndSave1_finally_files [OF assms(2)])
  then show ?thesis
    using assms(1)
    by (simp add: runAndSave1_def hashStringTo12Digits_urlKey Let_def case_prod_beta
        runLighthouse1_fst filePath1_def split: sum.splits)
qed

end
